theory Spec2Isabelle
  imports
    Main
    "HOL-Library.Word"
    "HOL-Library.Char_ord"
    "HOL-Library.List_Lexorder"
    "HOL-Library.Product_Lexorder"
    "HOL-Library.Sublist"
    "HOL-Library.Multiset"
begin

unbundle bit_operations_syntax

section \<open>Data model of \<^verbatim>\<open>pv_site_api/_db_helpers.py\<close>\<close>

text \<open>
  The module queries a relational store through SQLAlchemy and hands the rows to
  converters. The embedding keeps the module's own code (filters, orderings, the order
  of the calls, the raised errors) and takes what the module imports as follows.

  \<^item> A site identifier held by the store is a \<^verbatim>\<open>uuid.UUID\<close>: a 128-bit value. The
    store orders identifiers as unsigned 128-bit numbers.
  \<^item> A \<^verbatim>\<open>datetime\<close> is an integer count of microseconds, so
    \<^verbatim>\<open>dt.timedelta(minutes=m)\<close> is \<open>m * 60000000\<close>. The year range of Python's
    \<^verbatim>\<open>datetime\<close> is not modelled.
  \<^item> Column \<^verbatim>\<open>c\<close> of \<^verbatim>\<open>ForecastSQL\<close>, \<^verbatim>\<open>ForecastValueSQL\<close>,
    \<^verbatim>\<open>SiteSQL\<close> and \<^verbatim>\<open>GenerationSQL\<close> is the field \<open>f_c\<close>, \<open>v_c\<close>, \<open>s_c\<close> and
    \<open>g_c\<close> of the record of that name. Only the columns the module reads are kept, and
    columns are never NULL. Power values are carried along and never computed with; they
    are integers here.
  \<^item> A table is the list of its rows. Where a statement leaves the order of rows open, the
    engine decides, and may decide otherwise the next time: the session holds the rank the
    engine gives every row for each of the module's statements, and rows come in ascending
    rank. Every order of the rows is the order of some rank.
\<close>

type_synonym uuid = "128 word"
type_synonym datetime = int

definition timedelta_minutes :: "int \<Rightarrow> int" where
  "timedelta_minutes m = m * 60000000"

record SiteSQL =
  s_site_uuid :: uuid

record SiteGroupSQL =
  sites :: "SiteSQL list"

record UserSQL =
  site_group :: SiteGroupSQL

record ForecastSQL =
  f_forecast_uuid :: uuid
  f_site_uuid :: uuid
  f_timestamp_utc :: datetime

record ForecastValueSQL =
  v_forecast_value_uuid :: uuid
  v_forecast_uuid :: uuid
  v_start_utc :: datetime
  v_horizon_minutes :: int
  v_forecast_power_kw :: int

record GenerationSQL =
  g_site_uuid :: uuid
  g_start_utc :: datetime
  g_generation_power_kw :: int

text \<open>\<^verbatim>\<open>Row = Any\<close>: a row of the two forecast queries is a pair of a run and a value.\<close>

type_synonym Row = "ForecastSQL \<times> ForecastValueSQL"

text \<open>
  The statements the module sends to the store, and what it raises. \<open>ValueError\<close> is
  what \<^verbatim>\<open>uuid.UUID(su)\<close> raises on a malformed string, \<open>KeyError\<close> what a missing
  dictionary key raises, \<open>StorageFailure\<close> an error coming back from the store.
\<close>

datatype statement = HorizonQuery | LatestQuery | GenerationQuery

datatype error =
    HTTPException int string
  | KeyError string
  | ValueError
  | StorageFailure
  | NotFound

text \<open>
  A session holds the tables, the engine's conversion of a text parameter compared with a
  UUID column (\<open>None\<close> when the engine rejects the text), the engine's ranks, and the
  statements executed so far, oldest first. \<open>horizon_rank\<close> ranks the rows of the
  statement of \<^verbatim>\<open>_get_forecasts_for_horizon\<close>, \<open>subquery_rank\<close> the runs of the subquery
  of \<^verbatim>\<open>_get_latest_forecast_by_sites\<close> and \<open>latest_rank\<close> the rows of its outer query.
  Two sessions with the same tables and different ranks are two executions over the same
  stored data.
\<close>

record Session =
  forecast_table :: "ForecastSQL list"
  forecast_value_table :: "ForecastValueSQL list"
  bind_uuid :: "string \<Rightarrow> uuid option"
  horizon_rank :: "Row \<Rightarrow> nat"
  subquery_rank :: "ForecastSQL \<Rightarrow> nat"
  latest_rank :: "Row \<Rightarrow> nat"
  executed :: "statement list"

definition execute :: "statement \<Rightarrow> Session \<Rightarrow> Session" where
  "execute stmt session = session\<lparr>executed := executed session @ [stmt]\<rparr>"

subsection \<open>\<^verbatim>\<open>str(uuid.UUID)\<close>\<close>

text \<open>
  Python prints a UUID as its 32 lower-case hexadecimal digits, most significant first,
  in groups of 8, 4, 4, 4 and 12 joined by hyphens.
\<close>

definition hex_digit :: "nat \<Rightarrow> char" where
  "hex_digit n = ''0123456789abcdef'' ! (n mod 16)"

definition hex32 :: "uuid \<Rightarrow> string" where
  "hex32 u = map (\<lambda>i. hex_digit (unat (drop_bit (4 * i) u AND 15))) (rev [0..<32])"

definition str_UUID :: "uuid \<Rightarrow> string" where
  "str_UUID u =
     (let h = hex32 u in
      take 8 h @ ''-'' @ take 4 (drop 8 h) @ ''-'' @ take 4 (drop 12 h) @ ''-'' @
      take 4 (drop 16 h) @ ''-'' @ drop 20 h)"

section \<open>Access Authorizer\<close>

text \<open>
  \<^verbatim>\<open>auth\<close> is a dictionary from claim names to strings; the assertion
  \<^verbatim>\<open>isinstance(auth, dict)\<close> holds by its type. \<^verbatim>\<open>get_user_by_email\<close> belongs to
  the library \<^verbatim>\<open>pvsite_datamodel\<close> and is a parameter, and so is \<open>repr\<close>, Python's
  rendering of a list of strings inside an f-string.
\<close>

definition email_claim :: string where
  "email_claim = ''https://openclimatefix.org/email''"

definition forbidden_detail :: "string \<Rightarrow> string \<Rightarrow> string \<Rightarrow> string" where
  "forbidden_detail email site_uuid shown =
     ''Forbidden. User ('' @ email @ '') '' @
     ''does not have access to this site '' @ site_uuid @ ''. '' @
     ''User has access to '' @ shown"

definition check_user_has_access_to_site ::
  "(Session \<Rightarrow> string \<Rightarrow> error + UserSQL) \<Rightarrow> (string list \<Rightarrow> string) \<Rightarrow>
   Session \<Rightarrow> (string \<rightharpoonup> string) \<Rightarrow> string \<Rightarrow> error + unit" where
  "check_user_has_access_to_site get_user_by_email repr session auth site_uuid =
     (case auth email_claim of
        None \<Rightarrow> Inl (KeyError email_claim)
      | Some email \<Rightarrow>
          (case get_user_by_email session email of
             Inl e \<Rightarrow> Inl e
           | Inr user \<Rightarrow>
               (let site_uuids = map (\<lambda>site. str_UUID (s_site_uuid site)) (sites (site_group user))
                in if site_uuid \<notin> set site_uuids
                   then Inl (HTTPException 403
                          (forbidden_detail email site_uuid (repr site_uuids)))
                   else Inr ())))"

text \<open>
  The loop of lines 224 to 231: \<open>site_uuids\<close> is the sorted requested list, and the
  loop runs over that same list.
\<close>

fun for_site_uuid_in :: "(string list \<Rightarrow> string) \<Rightarrow> string \<Rightarrow> string list \<Rightarrow> string list \<Rightarrow> error + unit" where
  "for_site_uuid_in repr email site_uuids [] = Inr ()"
| "for_site_uuid_in repr email site_uuids (site_uuid # rest) =
     (if site_uuid \<notin> set site_uuids
      then Inl (HTTPException 403 (forbidden_detail email site_uuid (repr site_uuids)))
      else for_site_uuid_in repr email site_uuids rest)"

definition check_user_has_access_to_sites ::
  "(Session \<Rightarrow> string \<Rightarrow> error + UserSQL) \<Rightarrow> (string list \<Rightarrow> string) \<Rightarrow>
   Session \<Rightarrow> (string \<rightharpoonup> string) \<Rightarrow> string list \<Rightarrow> error + unit" where
  "check_user_has_access_to_sites get_user_by_email repr session auth requested =
     (case auth email_claim of
        None \<Rightarrow> Inl (KeyError email_claim)
      | Some email \<Rightarrow>
          (case get_user_by_email session email of
             Inl e \<Rightarrow> Inl e
           | Inr user \<Rightarrow>
               (let user_site_uuids =
                      sort (map (\<lambda>site. str_UUID (s_site_uuid site)) (sites (site_group user)));
                    site_uuids = sort requested
                in if user_site_uuids \<noteq> site_uuids
                   then for_site_uuid_in repr email site_uuids site_uuids
                   else Inr ())))"

section \<open>The SQL the module builds\<close>

text \<open>
  \<^verbatim>\<open>.join(ForecastValueSQL)\<close> joins on the foreign key: a value belongs to the run whose
  \<^verbatim>\<open>forecast_uuid\<close> it carries. \<open>join_values\<close> lists the joined rows; the order in
  which a statement yields them is settled by \<open>order_by\<close> or \<open>unordered\<close> below.
\<close>

definition join_values :: "ForecastSQL list \<Rightarrow> ForecastValueSQL list \<Rightarrow> Row list" where
  "join_values runs vals =
     [(f, v). f \<leftarrow> runs, v \<leftarrow> vals, v_forecast_uuid v = f_forecast_uuid f]"

text \<open>
  \<^verbatim>\<open>ORDER BY key\<close>: the rows ascend in the key, and rows of one key come in the order
  of the engine's rank. A statement with no \<^verbatim>\<open>ORDER BY\<close> yields its rows in the order of
  the engine's rank alone.
\<close>

definition order_by :: "('a \<Rightarrow> 'k::linorder) \<Rightarrow> ('a \<Rightarrow> nat) \<Rightarrow> 'a list \<Rightarrow> 'a list" where
  "order_by key rank rows = sort_key (\<lambda>row. (key row, rank row)) rows"

definition unordered :: "('a \<Rightarrow> nat) \<Rightarrow> 'a list \<Rightarrow> 'a list" where
  "unordered rank rows = sort_key rank rows"

text \<open>
  \<^verbatim>\<open>DISTINCT ON (key)\<close> over rows ordered by that key: of every run of neighbouring rows
  with one key, the first row stays.
\<close>

fun distinct_on :: "('a \<Rightarrow> 'k) \<Rightarrow> 'a list \<Rightarrow> 'a list" where
  "distinct_on key [] = []"
| "distinct_on key [x] = [x]"
| "distinct_on key (x # y # rest) =
     (if key x = key y then distinct_on key (x # rest) else x # distinct_on key (y # rest))"

section \<open>Forecast-Horizon Fetcher\<close>

text \<open>
  The key of \<^verbatim>\<open>.distinct(ForecastSQL.site_uuid, ForecastSQL.timestamp_utc)\<close> and of
  \<^verbatim>\<open>.order_by(ForecastSQL.site_uuid, ForecastSQL.timestamp_utc)\<close>.
\<close>

definition site_and_timestamp :: "Row \<Rightarrow> uuid \<times> datetime" where
  "site_and_timestamp row = (f_site_uuid (fst row), f_timestamp_utc (fst row))"

text \<open>The six \<^verbatim>\<open>.where\<close> clauses of lines 59 to 65, in their order.\<close>

definition horizon_where :: "uuid list \<Rightarrow> datetime \<Rightarrow> datetime \<Rightarrow> int \<Rightarrow> Row \<Rightarrow> bool" where
  "horizon_where ids start_utc end_utc horizon_minutes row =
     (f_site_uuid (fst row) \<in> set ids \<and>
      f_timestamp_utc (fst row) \<ge> start_utc - timedelta_minutes horizon_minutes \<and>
      f_timestamp_utc (fst row) < end_utc \<and>
      v_horizon_minutes (snd row) = horizon_minutes \<and>
      v_start_utc (snd row) \<ge> start_utc \<and>
      v_start_utc (snd row) < end_utc)"

text \<open>
  The statement compares the UUID column with the strings as they were passed in: the
  engine converts them, and rejects the statement when it cannot. Either way the
  statement has gone to the store. The statement orders by the two columns of its
  \<^verbatim>\<open>DISTINCT ON\<close> and by nothing else, so which row of a site and issuance time comes
  first, and stays, is the engine's choice.
\<close>

definition get_forecasts_for_horizon ::
  "Session \<Rightarrow> string list \<Rightarrow> datetime \<Rightarrow> datetime \<Rightarrow> int \<Rightarrow> (error + Row list) \<times> Session" where
  "get_forecasts_for_horizon session site_uuids start_utc end_utc horizon_minutes =
     (case those (map (bind_uuid session) site_uuids) of
        None \<Rightarrow> (Inl StorageFailure, execute HorizonQuery session)
      | Some ids \<Rightarrow>
          (Inr (distinct_on site_and_timestamp
                 (order_by site_and_timestamp (horizon_rank session)
                   (filter (horizon_where ids start_utc end_utc horizon_minutes)
                     (join_values (forecast_table session) (forecast_value_table session))))),
           execute HorizonQuery session))"

section \<open>Latest-Forecast Fetcher\<close>

text \<open>
  \<open>UUID\<close> is Python's \<^verbatim>\<open>uuid.UUID\<close> on a string, \<open>None\<close> where it raises
  \<^verbatim>\<open>ValueError\<close>; it is a parameter. The list comprehension of line 80 runs while the
  query is built, before \<^verbatim>\<open>query.all()\<close> sends anything. The subquery orders by site
  and by descending issuance time and keeps the first run of every site; among the runs
  of a site issued at its latest time the engine chooses. The \<^verbatim>\<open>query.order_by(...)\<close>
  of line 98 builds an ordered query and drops it: the outer query has no
  \<^verbatim>\<open>ORDER BY\<close>.
\<close>

definition latest_subquery ::
  "(ForecastSQL \<Rightarrow> nat) \<Rightarrow> uuid list \<Rightarrow> ForecastSQL list \<Rightarrow> ForecastSQL list" where
  "latest_subquery rank ids runs =
     distinct_on f_site_uuid
       (order_by (\<lambda>f. (f_site_uuid f, - f_timestamp_utc f)) rank
         (filter (\<lambda>f. f_site_uuid f \<in> set ids) runs))"

definition get_latest_forecast_by_sites ::
  "(string \<Rightarrow> uuid option) \<Rightarrow> Session \<Rightarrow> string list \<Rightarrow> datetime option \<Rightarrow>
   (error + Row list) \<times> Session" where
  "get_latest_forecast_by_sites UUID session site_uuids start_utc =
     (case those (map UUID site_uuids) of
        None \<Rightarrow> (Inl ValueError, session)
      | Some ids \<Rightarrow>
          (let subquery = latest_subquery (subquery_rank session) ids (forecast_table session);
               query = join_values subquery (forecast_value_table session);
               query = (case start_utc of
                          None \<Rightarrow> query
                        | Some t \<Rightarrow> filter (\<lambda>row. v_start_utc (snd row) \<ge> t) query)
           in (Inr (unordered (latest_rank session) query), execute LatestQuery session)))"

section \<open>Forecast Merge Engine\<close>

text \<open>
  The two converters of \<^verbatim>\<open>pv_site_api/convert.py\<close> and the clock reading
  \<^verbatim>\<open>dt.datetime.utcnow()\<close> are parameters; the result is \<open>Inl\<close> of the detailed
  shape or \<open>Inr\<close> of the compact one. Logging is left out.
\<close>

definition get_forecasts_by_sites ::
  "(Row list \<Rightarrow> 'a) \<Rightarrow> (Row list \<Rightarrow> 'b) \<Rightarrow> (string \<Rightarrow> uuid option) \<Rightarrow> datetime \<Rightarrow>
   Session \<Rightarrow> string list \<Rightarrow> datetime \<Rightarrow> int \<Rightarrow> bool \<Rightarrow> (error + ('a + 'b)) \<times> Session" where
  "get_forecasts_by_sites forecast_rows_to_pydantic forecast_rows_to_pydantic_compact UUID utcnow
       session site_uuids start_utc horizon_minutes compact =
     (let end_utc = utcnow in
      case get_forecasts_for_horizon session site_uuids start_utc end_utc horizon_minutes of
        (Inl e, session1) \<Rightarrow> (Inl e, session1)
      | (Inr rows_past, session1) \<Rightarrow>
          (case get_latest_forecast_by_sites UUID session1 site_uuids (Some start_utc) of
             (Inl e, session2) \<Rightarrow> (Inl e, session2)
           | (Inr rows_future, session2) \<Rightarrow>
               (if compact
                then (Inr (Inr (forecast_rows_to_pydantic_compact (rows_past @ rows_future))),
                      session2)
                else (Inr (Inl (forecast_rows_to_pydantic (rows_past @ rows_future))),
                      session2))))"

section \<open>Generation Retriever\<close>

type_synonym PVActualValue = "datetime \<times> int"

text \<open>
  \<^verbatim>\<open>get_pv_generation_by_sites\<close> belongs to \<^verbatim>\<open>pvsite_datamodel\<close> and the two
  converters to \<^verbatim>\<open>pv_site_api/convert.py\<close>: all three are parameters. The
  \<^verbatim>\<open>defaultdict(list)\<close> of line 153 is an empty association list.
\<close>

definition get_generation_by_sites ::
  "(Session \<Rightarrow> datetime \<Rightarrow> uuid list \<Rightarrow> error + GenerationSQL list) \<Rightarrow>
   ((string \<times> PVActualValue list) list \<Rightarrow> GenerationSQL list \<Rightarrow> string list \<Rightarrow> 'a) \<Rightarrow>
   (GenerationSQL list \<Rightarrow> 'b) \<Rightarrow> (string \<Rightarrow> uuid option) \<Rightarrow>
   Session \<Rightarrow> string list \<Rightarrow> datetime \<Rightarrow> bool \<Rightarrow> (error + ('a + 'b)) \<times> Session" where
  "get_generation_by_sites get_pv_generation_by_sites generation_rows_to_pydantic
       generation_rows_to_pydantic_compact UUID session site_uuids start_utc compact =
     (case those (map UUID site_uuids) of
        None \<Rightarrow> (Inl ValueError, session)
      | Some ids \<Rightarrow>
          (case get_pv_generation_by_sites session start_utc ids of
             Inl e \<Rightarrow> (Inl e, execute GenerationQuery session)
           | Inr rows \<Rightarrow>
               (let pv_actual_values_per_site = [] in
                if \<not> compact
                then (Inr (Inl (generation_rows_to_pydantic pv_actual_values_per_site rows
                                  site_uuids)),
                      execute GenerationQuery session)
                else (Inr (Inr (generation_rows_to_pydantic_compact rows)),
                      execute GenerationQuery session))))"

text \<open>
  Modelled from the spec: \<^verbatim>\<open>generation_rows_to_pydantic\<close> and
  \<^verbatim>\<open>generation_rows_to_pydantic_compact\<close> of \<^verbatim>\<open>pv_site_api/convert.py\<close>, which is
  not among the sources. Section 4.4 of the specification: the rows are reshaped
  ``either into a per-site grouping (mapping from site identity to ordered sequence of
  readings) or into a compact per-timestamp grouping''. A grouping is an association
  list in the order in which its keys first occur; \<open>append_under\<close> appends a reading to
  the sequence of its key.
\<close>

fun append_under :: "'k \<Rightarrow> 'v \<Rightarrow> ('k \<times> 'v list) list \<Rightarrow> ('k \<times> 'v list) list" where
  "append_under k v [] = [(k, [v])]"
| "append_under k v ((k', vs) # rest) =
     (if k = k' then (k', vs @ [v]) # rest else (k', vs) # append_under k v rest)"

definition generation_rows_to_pydantic ::
  "(string \<times> PVActualValue list) list \<Rightarrow> GenerationSQL list \<Rightarrow> string list \<Rightarrow>
   (string \<times> PVActualValue list) list" where
  "generation_rows_to_pydantic pv_actual_values_per_site rows site_uuids =
     fold (\<lambda>row. append_under (str_UUID (g_site_uuid row))
                   (g_start_utc row, g_generation_power_kw row))
       rows pv_actual_values_per_site"

definition generation_rows_to_pydantic_compact ::
  "GenerationSQL list \<Rightarrow> (datetime \<times> (string \<times> int) list) list" where
  "generation_rows_to_pydantic_compact rows =
     fold (\<lambda>row. append_under (g_start_utc row)
                   (str_UUID (g_site_uuid row), g_generation_power_kw row))
       rows []"

text \<open>A reading is a site, a timestamp and a value; these read them off either shape.\<close>

definition reading_of_row :: "GenerationSQL \<Rightarrow> string \<times> datetime \<times> int" where
  "reading_of_row row = (str_UUID (g_site_uuid row), g_start_utc row, g_generation_power_kw row)"

definition readings_per_site :: "(string \<times> PVActualValue list) list \<Rightarrow> (string \<times> datetime \<times> int) list" where
  "readings_per_site groups = concat (map (\<lambda>(site, vs). map (\<lambda>(t, kw). (site, t, kw)) vs) groups)"

definition readings_per_timestamp ::
  "(datetime \<times> (string \<times> int) list) list \<Rightarrow> (string \<times> datetime \<times> int) list" where
  "readings_per_timestamp groups =
     concat (map (\<lambda>(t, vs). map (\<lambda>(site, kw). (site, t, kw)) vs) groups)"

section \<open>Instances of the parameters\<close>

text \<open>
  Concrete values for the parameters, used where a statement is evaluated on an example.
  \<open>UUID_hex\<close> reads the 32 hexadecimal digits of an identifier, hyphens dropped, and
  fails on anything else, as \<^verbatim>\<open>uuid.UUID\<close> does on such strings. \<open>repr_plain\<close> is
  Python's rendering of a list of strings that hold no quote, no backslash and no
  control character. \<open>lookup_user\<close> finds a user by email in a list of users.
  \<open>no_preference\<close> is the rank of an engine that yields rows as the tables list them;
  \<open>prefer_run u\<close> and \<open>prefer_row u\<close> are the ranks of an engine that yields the run
  \<open>u\<close> and its rows first.
\<close>

definition no_preference :: "'a \<Rightarrow> nat" where
  "no_preference row = 0"

definition prefer_run :: "uuid \<Rightarrow> ForecastSQL \<Rightarrow> nat" where
  "prefer_run u f = (if f_forecast_uuid f = u then 0 else 1)"

definition prefer_row :: "uuid \<Rightarrow> Row \<Rightarrow> nat" where
  "prefer_row u row = prefer_run u (fst row)"

definition hex_value :: "char \<Rightarrow> nat option" where
  "hex_value c =
     (let n = (of_char c :: nat) in
      if 48 \<le> n \<and> n \<le> 57 then Some (n - 48)
      else if 97 \<le> n \<and> n \<le> 102 then Some (n - 87)
      else if 65 \<le> n \<and> n \<le> 70 then Some (n - 55)
      else None)"

fun hex_number :: "nat \<Rightarrow> string \<Rightarrow> nat option" where
  "hex_number acc [] = Some acc"
| "hex_number acc (c # cs) =
     (case hex_value c of None \<Rightarrow> None | Some d \<Rightarrow> hex_number (16 * acc + d) cs)"

definition UUID_hex :: "string \<Rightarrow> uuid option" where
  "UUID_hex s =
     (let h = filter (\<lambda>c. c \<noteq> CHR ''-'') s in
      if length h \<noteq> 32 then None else map_option of_nat (hex_number 0 h))"

definition repr_plain :: "string list \<Rightarrow> string" where
  "repr_plain xs =
     ''['' @ concat (map (\<lambda>(i, x). (if i = 0 then [] else '', '') @ [CHR 39] @ x @ [CHR 39])
                      (enumerate 0 xs)) @ '']''"

definition lookup_user :: "(string \<times> UserSQL) list \<Rightarrow> Session \<Rightarrow> string \<Rightarrow> error + UserSQL" where
  "lookup_user users session email =
     (case map_of users email of None \<Rightarrow> Inl NotFound | Some user \<Rightarrow> Inr user)"

text \<open>
  An example caller: Alice, whose site group holds the sites 1 and 2, and a store with no
  rows whose engine reads identifiers with \<open>UUID_hex\<close>.
\<close>

definition example_user :: UserSQL where
  "example_user = \<lparr>site_group = \<lparr>sites = [\<lparr>s_site_uuid = 1\<rparr>, \<lparr>s_site_uuid = 2\<rparr>]\<rparr>\<rparr>"

definition example_users :: "(string \<times> UserSQL) list" where
  "example_users = [(''alice@example.org'', example_user)]"

definition example_auth :: "string \<rightharpoonup> string" where
  "example_auth = [email_claim \<mapsto> ''alice@example.org'']"

definition empty_session :: Session where
  "empty_session =
     \<lparr>forecast_table = [], forecast_value_table = [], bind_uuid = UUID_hex,
      horizon_rank = no_preference, subquery_rank = no_preference,
      latest_rank = no_preference, executed = []\<rparr>"

text \<open>
  A store in which two runs of site 1 carry the same issuance time, each with one value at
  a horizon of 30 minutes that targets minute 30. Times are in microseconds.
\<close>

definition run_a :: ForecastSQL where
  "run_a = \<lparr>f_forecast_uuid = 10, f_site_uuid = 1, f_timestamp_utc = 0\<rparr>"

definition run_b :: ForecastSQL where
  "run_b = \<lparr>f_forecast_uuid = 11, f_site_uuid = 1, f_timestamp_utc = 0\<rparr>"

definition value_a :: ForecastValueSQL where
  "value_a = \<lparr>v_forecast_value_uuid = 20, v_forecast_uuid = 10, v_start_utc = 1800000000,
     v_horizon_minutes = 30, v_forecast_power_kw = 5\<rparr>"

definition value_b :: ForecastValueSQL where
  "value_b = \<lparr>v_forecast_value_uuid = 21, v_forecast_uuid = 11, v_start_utc = 1800000000,
     v_horizon_minutes = 30, v_forecast_power_kw = 7\<rparr>"

definition duplicate_runs_session :: Session where
  "duplicate_runs_session =
     \<lparr>forecast_table = [run_a, run_b], forecast_value_table = [value_a, value_b],
      bind_uuid = UUID_hex, horizon_rank = no_preference, subquery_rank = no_preference,
      latest_rank = no_preference, executed = []\<rparr>"

text \<open>The same store, read by an engine that yields \<open>run_b\<close> before \<open>run_a\<close>.\<close>

definition duplicate_runs_other_plan :: Session where
  "duplicate_runs_other_plan =
     duplicate_runs_session\<lparr>horizon_rank := prefer_row 11, subquery_rank := prefer_run 11\<rparr>"

text \<open>
  A store with two runs of site 1: \<open>run_a\<close>, issued at minute 0 with a value at a
  horizon of 30 minutes, and the later \<open>run_new\<close>, issued at minute 60 with a value that
  targets minute 120. \<open>stored_generation\<close> is an instance of
  \<^verbatim>\<open>get_pv_generation_by_sites\<close>: the readings of the given sites at or after the
  start time, out of a list of readings.
\<close>

definition run_new :: ForecastSQL where
  "run_new = \<lparr>f_forecast_uuid = 12, f_site_uuid = 1, f_timestamp_utc = 3600000000\<rparr>"

definition value_new :: ForecastValueSQL where
  "value_new = \<lparr>v_forecast_value_uuid = 22, v_forecast_uuid = 12, v_start_utc = 7200000000,
     v_horizon_minutes = 60, v_forecast_power_kw = 9\<rparr>"

definition example_session :: Session where
  "example_session =
     \<lparr>forecast_table = [run_a, run_new], forecast_value_table = [value_a, value_new],
      bind_uuid = UUID_hex, horizon_rank = no_preference, subquery_rank = no_preference,
      latest_rank = no_preference, executed = []\<rparr>"

definition example_session_other_plan :: Session where
  "example_session_other_plan =
     example_session\<lparr>horizon_rank := prefer_row 12, subquery_rank := prefer_run 12,
       latest_rank := prefer_row 12\<rparr>"

definition stored_generation ::
  "GenerationSQL list \<Rightarrow> Session \<Rightarrow> datetime \<Rightarrow> uuid list \<Rightarrow> error + GenerationSQL list" where
  "stored_generation table session start_utc ids =
     Inr (filter (\<lambda>row. g_site_uuid row \<in> set ids \<and> start_utc \<le> g_start_utc row) table)"

definition example_generation :: "GenerationSQL list" where
  "example_generation =
     [\<lparr>g_site_uuid = 2, g_start_utc = 0, g_generation_power_kw = 3\<rparr>,
      \<lparr>g_site_uuid = 1, g_start_utc = 0, g_generation_power_kw = 4\<rparr>,
      \<lparr>g_site_uuid = 2, g_start_utc = 300000000, g_generation_power_kw = 3\<rparr>]"

section \<open>Properties of the Access Authorizer\<close>

lemma str_UUID_1: "str_UUID 1 = ''00000000-0000-0000-0000-000000000001''"
  by code_simp

lemma str_UUID_2: "str_UUID 2 = ''00000000-0000-0000-0000-000000000002''"
  by code_simp

lemma example_lookup:
  "lookup_user example_users empty_session ''alice@example.org'' = Inr example_user"
  by (simp add: lookup_user_def example_users_def)

lemma example_auth_email: "example_auth email_claim = Some ''alice@example.org''"
  by (simp add: example_auth_def)

lemma for_site_uuid_in_subset:
  "set ys \<subseteq> set site_uuids \<Longrightarrow> for_site_uuid_in repr email site_uuids ys = Inr ()"
  by (induction ys) auto

lemma sublist_forbidden_detail:
  "sublist email (forbidden_detail email site_uuid shown)"
  "sublist site_uuid (forbidden_detail email site_uuid shown)"
  "sublist shown (forbidden_detail email site_uuid shown)"
  unfolding forbidden_detail_def
    apply (rule sublist_appendI)
   apply (metis sublist_appendI append.assoc)
  apply (metis sublist_appendI append.assoc append_Nil2)
  done

text \<open>
  Claim C1, at the input where it fails. Alice is entitled to the sites 1 and 2 and asks
  for the sites 1, 2 and 3. The sorted entitled list differs from the sorted requested
  list, and \<^verbatim>\<open>check_user_has_access_to_sites\<close> still returns normally: the loop tests
  every requested identifier against the requested list.
\<close>

theorem sites_check_superset_passes:
  "check_user_has_access_to_sites (lookup_user example_users) repr_plain empty_session
     example_auth
     [''00000000-0000-0000-0000-000000000001'', ''00000000-0000-0000-0000-000000000002'',
      ''00000000-0000-0000-0000-000000000003''] = Inr () \<and>
   sort (map (\<lambda>site. str_UUID (s_site_uuid site)) (sites (site_group example_user))) =
     [''00000000-0000-0000-0000-000000000001'', ''00000000-0000-0000-0000-000000000002'']"
  by (simp add: check_user_has_access_to_sites_def example_auth_def lookup_user_def
      example_users_def example_user_def str_UUID_1 str_UUID_2 Let_def)

text \<open>
  Claim C2. When \<^verbatim>\<open>auth\<close> holds the email claim and the user lookup succeeds,
  \<^verbatim>\<open>check_user_has_access_to_sites\<close> returns normally for every requested list: it
  never raises the Forbidden error, whatever the caller is entitled to.
\<close>

theorem sites_check_never_forbidden:
  assumes "auth email_claim = Some email"
    and "get_user_by_email session email = Inr user"
  shows "check_user_has_access_to_sites get_user_by_email repr session auth requested = Inr ()"
  using assms by (simp add: check_user_has_access_to_sites_def Let_def for_site_uuid_in_subset)

theorem sites_check_never_forbidden_witness:
  "check_user_has_access_to_sites (lookup_user example_users) repr_plain empty_session
     example_auth [''00000000-0000-0000-0000-000000000003''] = Inr ()"
  using sites_check_never_forbidden
    [where get_user_by_email = "lookup_user example_users" and session = empty_session
       and auth = example_auth and email = "''alice@example.org''" and user = example_user
       and repr = repr_plain and requested = "[''00000000-0000-0000-0000-000000000003'']"]
  by (simp add: example_auth_email example_lookup)

text \<open>
  Claim C8. When \<^verbatim>\<open>auth\<close> holds the email claim and the user lookup succeeds,
  \<^verbatim>\<open>check_user_has_access_to_site\<close> returns normally when the requested site is among
  the identifiers of the caller's site group, and raises \<^verbatim>\<open>HTTPException\<close> with status
  403 otherwise. The detail of that error holds the caller's email, the requested
  identifier and the rendering of the whole entitled list.
\<close>

theorem site_check_forbidden_iff:
  assumes "auth email_claim = Some email"
    and "get_user_by_email session email = Inr user"
    and "entitled = map (\<lambda>site. str_UUID (s_site_uuid site)) (sites (site_group user))"
  shows "check_user_has_access_to_site get_user_by_email repr session auth site_uuid =
           (if site_uuid \<in> set entitled then Inr ()
            else Inl (HTTPException 403 (forbidden_detail email site_uuid (repr entitled)))) \<and>
         sublist email (forbidden_detail email site_uuid (repr entitled)) \<and>
         sublist site_uuid (forbidden_detail email site_uuid (repr entitled)) \<and>
         sublist (repr entitled) (forbidden_detail email site_uuid (repr entitled))"
  using assms
  by (simp add: check_user_has_access_to_site_def Let_def sublist_forbidden_detail)

theorem site_check_forbidden_iff_witness:
  "check_user_has_access_to_site (lookup_user example_users) repr_plain empty_session
     example_auth ''00000000-0000-0000-0000-000000000003'' =
     Inl (HTTPException 403
       (forbidden_detail ''alice@example.org'' ''00000000-0000-0000-0000-000000000003''
         (repr_plain [''00000000-0000-0000-0000-000000000001'',
                      ''00000000-0000-0000-0000-000000000002''])))"
  using site_check_forbidden_iff
    [where get_user_by_email = "lookup_user example_users" and session = empty_session
       and auth = example_auth and email = "''alice@example.org''" and user = example_user
       and repr = repr_plain and site_uuid = "''00000000-0000-0000-0000-000000000003''"
       and entitled = "[''00000000-0000-0000-0000-000000000001'',
                      ''00000000-0000-0000-0000-000000000002'']"]
  by (simp add: example_auth_email example_lookup example_user_def str_UUID_1 str_UUID_2)

section \<open>Properties of the SQL\<close>

lemma distinct_on_subset: "set (distinct_on key xs) \<subseteq> set xs"
  by (induction key xs rule: distinct_on.induct) auto

lemma distinct_on_keys: "key ` set (distinct_on key xs) = key ` set xs"
  by (induction key xs rule: distinct_on.induct) auto

lemma distinct_on_sorted:
  "sorted (map key xs) \<Longrightarrow> sorted (map key (distinct_on key xs))"
proof (induction key xs rule: distinct_on.induct)
  case (3 key x y rest)
  have sub: "set (distinct_on key (y # rest)) \<subseteq> set (y # rest)"
    by (rule distinct_on_subset)
  show ?case
  proof (cases "key x = key y")
    case True
    with 3 show ?thesis by auto
  next
    case False
    then have eq: "distinct_on key (x # y # rest) = x # distinct_on key (y # rest)" by simp
    from 3(3) have le: "key x \<le> key z" if "z \<in> set (y # rest)" for z
      using that by auto
    from 3(2)[OF False] 3(3) have "sorted (map key (distinct_on key (y # rest)))" by simp
    with sub le show ?thesis unfolding eq by (auto simp del: distinct_on.simps)
  qed
qed simp_all

lemma distinct_on_distinct:
  "sorted (map key xs) \<Longrightarrow> distinct (map key (distinct_on key xs))"
proof (induction key xs rule: distinct_on.induct)
  case (3 key x y rest)
  have sub: "set (distinct_on key (y # rest)) \<subseteq> set (y # rest)"
    by (rule distinct_on_subset)
  show ?case
  proof (cases "key x = key y")
    case True
    with 3 show ?thesis by auto
  next
    case False
    have "key x \<noteq> key z" if "z \<in> set (y # rest)" for z
    proof -
      from 3(3) that have "key x \<le> key y" "key y \<le> key z" by auto
      with False show ?thesis by auto
    qed
    then have ne: "key x \<notin> key ` set (distinct_on key (y # rest))" using sub by blast
    from False have eq: "distinct_on key (x # y # rest) = x # distinct_on key (y # rest)" by simp
    from 3(2)[OF False] 3(3) have "distinct (map key (distinct_on key (y # rest)))" by simp
    with ne show ?thesis unfolding eq by (simp del: distinct_on.simps)
  qed
qed simp_all

lemma distinct_on_first:
  "sorted (map key xs) \<Longrightarrow> x \<in> set (distinct_on key xs) \<Longrightarrow>
   find (\<lambda>y. key y = key x) xs = Some x"
proof (induction key xs rule: distinct_on.induct)
  case (3 key a b rest)
  have sub: "set (distinct_on key (b # rest)) \<subseteq> set (b # rest)"
    by (rule distinct_on_subset)
  show ?case
  proof (cases "key a = key b")
    case True
    with 3 have "find (\<lambda>y. key y = key x) (a # rest) = Some x" by auto
    with True show ?thesis by (auto split: if_splits)
  next
    case False
    show ?thesis
    proof (cases "x = a")
      case True
      then show ?thesis by simp
    next
      case neq: False
      with 3(4) False have mem: "x \<in> set (distinct_on key (b # rest))" by auto
      with sub have "x \<in> set (b # rest)" by blast
      with 3(3) have "key a \<le> key b" "key b \<le> key x" by auto
      with False have "key a \<noteq> key x" by auto
      moreover from 3(2)[OF False] 3(3) mem have "find (\<lambda>y. key y = key x) (b # rest) = Some x"
        by auto
      ultimately show ?thesis by simp
    qed
  qed
qed simp_all

lemma find_sorted_le:
  "sorted (map k xs) \<Longrightarrow> find P xs = Some x \<Longrightarrow> y \<in> set xs \<Longrightarrow> P y \<Longrightarrow> k x \<le> k y"
  by (induction xs) (auto split: if_splits)

lemma sorted_map_fst_of_pair:
  "sorted (map (\<lambda>x. (a x, b x)) xs) \<Longrightarrow> sorted (map a xs)"
  by (induction xs) (auto simp: less_eq_prod_def)

lemma set_order_by: "set (order_by key rank rows) = set rows"
  by (simp add: order_by_def)

lemma sorted_order_by: "sorted (map key (order_by key rank rows))"
  unfolding order_by_def
  by (rule sorted_map_fst_of_pair [where b = rank]) simp

lemma set_unordered: "set (unordered rank rows) = set rows"
  by (simp add: unordered_def)

lemma mset_unordered: "mset (unordered rank rows) = mset rows"
  by (simp add: unordered_def)

lemma map_eq_imp_eq:
  "map f xs = map f ys \<Longrightarrow> (\<forall>x\<in>set xs. \<forall>y\<in>set ys. f x = f y \<longrightarrow> x = y) \<Longrightarrow> xs = ys"
proof (induction xs arbitrary: ys)
  case Nil
  then show ?case by simp
next
  case (Cons x xs)
  then obtain y ys' where ys: "ys = y # ys'" by (cases ys) auto
  with Cons.prems have "f x = f y" "map f xs = map f ys'" by auto
  moreover from Cons.prems ys \<open>f x = f y\<close> have "x = y" by auto
  moreover from Cons.prems ys have "\<forall>a\<in>set xs. \<forall>b\<in>set ys'. f a = f b \<longrightarrow> a = b" by auto
  ultimately show ?case using Cons.IH ys by blast
qed

lemma set_join_values:
  "set (join_values runs vals) =
     {(f, v). f \<in> set runs \<and> v \<in> set vals \<and> v_forecast_uuid v = f_forecast_uuid f}"
  by (auto simp: join_values_def)

lemma those_map_None: "s \<in> set xs \<Longrightarrow> f s = None \<Longrightarrow> those (map f xs) = None"
  by (induction xs) (auto split: option.splits)


section \<open>Properties of the Forecast-Horizon Fetcher\<close>

lemma UUID_hex_1: "UUID_hex ''00000000-0000-0000-0000-000000000001'' = Some 1"
  by code_simp

lemma horizon_rows:
  assumes "those (map (bind_uuid session) site_uuids) = Some ids"
  shows "fst (get_forecasts_for_horizon session site_uuids start_utc end_utc horizon_minutes) =
     Inr (distinct_on site_and_timestamp
           (order_by site_and_timestamp (horizon_rank session)
             (filter (horizon_where ids start_utc end_utc horizon_minutes)
               (join_values (forecast_table session) (forecast_value_table session)))))"
  using assms by (simp add: get_forecasts_for_horizon_def)

lemma duplicate_runs_rows:
  "fst (get_forecasts_for_horizon duplicate_runs_session
          [''00000000-0000-0000-0000-000000000001''] 0 3600000000 30) =
     Inr [(run_a, value_a)]"
  by (simp add: get_forecasts_for_horizon_def duplicate_runs_session_def UUID_hex_1
      join_values_def horizon_where_def timedelta_minutes_def site_and_timestamp_def
      order_by_def no_preference_def run_a_def run_b_def value_a_def value_b_def)

lemma duplicate_runs_rows_other_plan:
  "fst (get_forecasts_for_horizon duplicate_runs_other_plan
          [''00000000-0000-0000-0000-000000000001''] 0 3600000000 30) =
     Inr [(run_b, value_b)]"
  by (simp add: get_forecasts_for_horizon_def duplicate_runs_other_plan_def
      duplicate_runs_session_def UUID_hex_1
      join_values_def horizon_where_def timedelta_minutes_def site_and_timestamp_def
      order_by_def prefer_row_def prefer_run_def run_a_def run_b_def value_a_def value_b_def)

lemma duplicate_runs_bind:
  "those (map (bind_uuid duplicate_runs_session) [''00000000-0000-0000-0000-000000000001'']) =
     Some [1]"
  by (simp add: duplicate_runs_session_def UUID_hex_1)

text \<open>
  Claim C3, at the input where it fails. Two runs of site 1 were issued at the same time;
  the pair of the second run and its value has the requested horizon, a target time inside
  the window and an issuance time inside the widened window, and is not returned:
  \<^verbatim>\<open>DISTINCT ON\<close> keeps one row for the site and issuance time.
\<close>

theorem horizon_drops_qualifying_pair:
  "fst (get_forecasts_for_horizon duplicate_runs_session
          [''00000000-0000-0000-0000-000000000001''] 0 3600000000 30) =
     Inr [(run_a, value_a)] \<and>
   (run_b, value_b) \<notin> set [(run_a, value_a)] \<and>
   run_b \<in> set (forecast_table duplicate_runs_session) \<and>
   value_b \<in> set (forecast_value_table duplicate_runs_session) \<and>
   v_forecast_uuid value_b = f_forecast_uuid run_b \<and>
   bind_uuid duplicate_runs_session ''00000000-0000-0000-0000-000000000001'' =
     Some (f_site_uuid run_b) \<and>
   v_horizon_minutes value_b = 30 \<and>
   0 \<le> v_start_utc value_b \<and> v_start_utc value_b < 3600000000 \<and>
   0 - timedelta_minutes 30 \<le> f_timestamp_utc run_b \<and> f_timestamp_utc run_b < 3600000000"
  by (simp add: duplicate_runs_rows)
     (simp add: duplicate_runs_session_def UUID_hex_1 timedelta_minutes_def
      run_a_def run_b_def value_a_def value_b_def)

text \<open>
  Claim C3, amended. When the engine accepts the identifiers, the fetcher returns rows,
  and every returned pair is a stored run of a requested site with one of its values,
  the value has the requested horizon and a target time in \<open>[start, end)\<close>, and the run
  was issued in \<open>[start - horizon minutes, end)\<close>. For every stored pair that meets these
  conditions exactly one returned pair has its site and issuance time; the pair itself
  is returned when no other such pair shares its site and issuance time.
\<close>

theorem horizon_rows_sound_and_one_per_key:
  assumes "those (map (bind_uuid session) site_uuids) = Some ids"
  shows "\<exists>rows.
     fst (get_forecasts_for_horizon session site_uuids start_utc end_utc horizon_minutes) =
       Inr rows \<and>
     (\<forall>row\<in>set rows.
        fst row \<in> set (forecast_table session) \<and>
        snd row \<in> set (forecast_value_table session) \<and>
        v_forecast_uuid (snd row) = f_forecast_uuid (fst row) \<and>
        f_site_uuid (fst row) \<in> set ids \<and>
        v_horizon_minutes (snd row) = horizon_minutes \<and>
        start_utc \<le> v_start_utc (snd row) \<and> v_start_utc (snd row) < end_utc \<and>
        start_utc - timedelta_minutes horizon_minutes \<le> f_timestamp_utc (fst row) \<and>
        f_timestamp_utc (fst row) < end_utc) \<and>
     (\<forall>f\<in>set (forecast_table session). \<forall>v\<in>set (forecast_value_table session).
        v_forecast_uuid v = f_forecast_uuid f \<and>
        horizon_where ids start_utc end_utc horizon_minutes (f, v) \<longrightarrow>
        (\<exists>!kept. kept \<in> set rows \<and>
           f_site_uuid (fst kept) = f_site_uuid f \<and>
           f_timestamp_utc (fst kept) = f_timestamp_utc f)) \<and>
     (\<forall>f\<in>set (forecast_table session). \<forall>v\<in>set (forecast_value_table session).
        v_forecast_uuid v = f_forecast_uuid f \<and>
        horizon_where ids start_utc end_utc horizon_minutes (f, v) \<and>
        (\<forall>f'\<in>set (forecast_table session). \<forall>v'\<in>set (forecast_value_table session).
           v_forecast_uuid v' = f_forecast_uuid f' \<and>
           horizon_where ids start_utc end_utc horizon_minutes (f', v') \<and>
           f_site_uuid f' = f_site_uuid f \<and> f_timestamp_utc f' = f_timestamp_utc f \<longrightarrow>
           (f', v') = (f, v)) \<longrightarrow>
        (f, v) \<in> set rows)"
proof -
  define candidates where "candidates =
    filter (horizon_where ids start_utc end_utc horizon_minutes)
      (join_values (forecast_table session) (forecast_value_table session))"
  define rows where "rows = distinct_on site_and_timestamp
      (order_by site_and_timestamp (horizon_rank session) candidates)"
  have res: "fst (get_forecasts_for_horizon session site_uuids start_utc end_utc horizon_minutes)
      = Inr rows"
    using horizon_rows[OF assms] by (simp add: rows_def candidates_def)
  have cand: "set candidates =
      {(f, v). f \<in> set (forecast_table session) \<and> v \<in> set (forecast_value_table session) \<and>
         v_forecast_uuid v = f_forecast_uuid f \<and>
         horizon_where ids start_utc end_utc horizon_minutes (f, v)}"
    by (auto simp: candidates_def set_join_values)
  have sub: "set rows \<subseteq> set candidates"
    using distinct_on_subset[of site_and_timestamp
        "order_by site_and_timestamp (horizon_rank session) candidates"]
    by (simp add: rows_def set_order_by)
  have keys: "site_and_timestamp ` set rows = site_and_timestamp ` set candidates"
    by (simp add: rows_def distinct_on_keys set_order_by)
  have dist: "distinct (map site_and_timestamp rows)"
    unfolding rows_def by (rule distinct_on_distinct) (rule sorted_order_by)
  have sound: "fst row \<in> set (forecast_table session) \<and>
        snd row \<in> set (forecast_value_table session) \<and>
        v_forecast_uuid (snd row) = f_forecast_uuid (fst row) \<and>
        f_site_uuid (fst row) \<in> set ids \<and>
        v_horizon_minutes (snd row) = horizon_minutes \<and>
        start_utc \<le> v_start_utc (snd row) \<and> v_start_utc (snd row) < end_utc \<and>
        start_utc - timedelta_minutes horizon_minutes \<le> f_timestamp_utc (fst row) \<and>
        f_timestamp_utc (fst row) < end_utc" if "row \<in> set rows" for row
  proof -
    from that sub have "row \<in> set candidates" by blast
    then show ?thesis unfolding cand by (auto simp: horizon_where_def)
  qed
  have kept: "\<exists>!kept. kept \<in> set rows \<and> f_site_uuid (fst kept) = f_site_uuid f \<and>
           f_timestamp_utc (fst kept) = f_timestamp_utc f"
    if "(f, v) \<in> set candidates" for f v
  proof -
    from that keys have "site_and_timestamp (f, v) \<in> site_and_timestamp ` set rows" by blast
    then obtain k where k: "k \<in> set rows" "site_and_timestamp k = site_and_timestamp (f, v)"
      by auto
    from dist have inj: "inj_on site_and_timestamp (set rows)" by (simp add: distinct_map)
    show ?thesis
    proof (rule ex1I[of _ k])
      from k show "k \<in> set rows \<and> f_site_uuid (fst k) = f_site_uuid f \<and>
           f_timestamp_utc (fst k) = f_timestamp_utc f"
        by (simp add: site_and_timestamp_def)
    next
      fix k' assume "k' \<in> set rows \<and> f_site_uuid (fst k') = f_site_uuid f \<and>
           f_timestamp_utc (fst k') = f_timestamp_utc f"
      then have "k' \<in> set rows" "site_and_timestamp k' = site_and_timestamp k"
        using k by (simp_all add: site_and_timestamp_def)
      with inj k(1) show "k' = k" by (auto dest: inj_onD)
    qed
  qed
  have alone: "(f, v) \<in> set rows"
    if "(f, v) \<in> set candidates"
      and "\<forall>f'\<in>set (forecast_table session). \<forall>v'\<in>set (forecast_value_table session).
           v_forecast_uuid v' = f_forecast_uuid f' \<and>
           horizon_where ids start_utc end_utc horizon_minutes (f', v') \<and>
           f_site_uuid f' = f_site_uuid f \<and> f_timestamp_utc f' = f_timestamp_utc f \<longrightarrow>
           (f', v') = (f, v)" for f v
  proof -
    from kept[OF that(1)] obtain k where k: "k \<in> set rows" "f_site_uuid (fst k) = f_site_uuid f"
      "f_timestamp_utc (fst k) = f_timestamp_utc f" by blast
    from k(1) sub have "k \<in> set candidates" by blast
    then have "fst k \<in> set (forecast_table session)" "snd k \<in> set (forecast_value_table session)"
      "v_forecast_uuid (snd k) = f_forecast_uuid (fst k)"
      "horizon_where ids start_utc end_utc horizon_minutes (fst k, snd k)"
      unfolding cand by auto
    with that(2) k(2,3) have "(fst k, snd k) = (f, v)" by blast
    with k(1) show ?thesis by simp
  qed
  have in_cand: "(f, v) \<in> set candidates"
    if "f \<in> set (forecast_table session)" "v \<in> set (forecast_value_table session)"
      "v_forecast_uuid v = f_forecast_uuid f"
      "horizon_where ids start_utc end_utc horizon_minutes (f, v)" for f v
    using that unfolding cand by simp
  show ?thesis
  proof (intro exI[of _ rows] conjI)
    show "fst (get_forecasts_for_horizon session site_uuids start_utc end_utc horizon_minutes)
      = Inr rows" by (rule res)
  next
    show "\<forall>row\<in>set rows.
        fst row \<in> set (forecast_table session) \<and>
        snd row \<in> set (forecast_value_table session) \<and>
        v_forecast_uuid (snd row) = f_forecast_uuid (fst row) \<and>
        f_site_uuid (fst row) \<in> set ids \<and>
        v_horizon_minutes (snd row) = horizon_minutes \<and>
        start_utc \<le> v_start_utc (snd row) \<and> v_start_utc (snd row) < end_utc \<and>
        start_utc - timedelta_minutes horizon_minutes \<le> f_timestamp_utc (fst row) \<and>
        f_timestamp_utc (fst row) < end_utc"
      using sound by blast
  next
    show "\<forall>f\<in>set (forecast_table session). \<forall>v\<in>set (forecast_value_table session).
        v_forecast_uuid v = f_forecast_uuid f \<and>
        horizon_where ids start_utc end_utc horizon_minutes (f, v) \<longrightarrow>
        (\<exists>!kept. kept \<in> set rows \<and>
           f_site_uuid (fst kept) = f_site_uuid f \<and>
           f_timestamp_utc (fst kept) = f_timestamp_utc f)"
    proof (intro ballI impI)
      fix f v
      assume "f \<in> set (forecast_table session)" "v \<in> set (forecast_value_table session)"
        "v_forecast_uuid v = f_forecast_uuid f \<and>
         horizon_where ids start_utc end_utc horizon_minutes (f, v)"
      then have "(f, v) \<in> set candidates" using in_cand by blast
      then show "\<exists>!kept. kept \<in> set rows \<and>
           f_site_uuid (fst kept) = f_site_uuid f \<and>
           f_timestamp_utc (fst kept) = f_timestamp_utc f" by (rule kept)
    qed
  next
    show "\<forall>f\<in>set (forecast_table session). \<forall>v\<in>set (forecast_value_table session).
        v_forecast_uuid v = f_forecast_uuid f \<and>
        horizon_where ids start_utc end_utc horizon_minutes (f, v) \<and>
        (\<forall>f'\<in>set (forecast_table session). \<forall>v'\<in>set (forecast_value_table session).
           v_forecast_uuid v' = f_forecast_uuid f' \<and>
           horizon_where ids start_utc end_utc horizon_minutes (f', v') \<and>
           f_site_uuid f' = f_site_uuid f \<and> f_timestamp_utc f' = f_timestamp_utc f \<longrightarrow>
           (f', v') = (f, v)) \<longrightarrow>
        (f, v) \<in> set rows"
    proof (intro ballI impI, elim conjE)
      fix f v
      assume a: "f \<in> set (forecast_table session)" "v \<in> set (forecast_value_table session)"
        "v_forecast_uuid v = f_forecast_uuid f"
        "horizon_where ids start_utc end_utc horizon_minutes (f, v)"
        and u: "\<forall>f'\<in>set (forecast_table session). \<forall>v'\<in>set (forecast_value_table session).
           v_forecast_uuid v' = f_forecast_uuid f' \<and>
           horizon_where ids start_utc end_utc horizon_minutes (f', v') \<and>
           f_site_uuid f' = f_site_uuid f \<and> f_timestamp_utc f' = f_timestamp_utc f \<longrightarrow>
           (f', v') = (f, v)"
      from a have "(f, v) \<in> set candidates" by (rule in_cand)
      then show "(f, v) \<in> set rows" using u by (rule alone)
    qed
  qed
qed

theorem horizon_rows_sound_and_one_per_key_witness:
  "those (map (bind_uuid duplicate_runs_session) [''00000000-0000-0000-0000-000000000001'']) =
     Some [1] \<and>
   (\<exists>rows.
     fst (get_forecasts_for_horizon duplicate_runs_session
            [''00000000-0000-0000-0000-000000000001''] 0 3600000000 30) = Inr rows \<and>
     (\<forall>row\<in>set rows.
        fst row \<in> set (forecast_table duplicate_runs_session) \<and>
        snd row \<in> set (forecast_value_table duplicate_runs_session) \<and>
        v_forecast_uuid (snd row) = f_forecast_uuid (fst row) \<and>
        f_site_uuid (fst row) \<in> set [1] \<and>
        v_horizon_minutes (snd row) = 30 \<and>
        0 \<le> v_start_utc (snd row) \<and> v_start_utc (snd row) < 3600000000 \<and>
        0 - timedelta_minutes 30 \<le> f_timestamp_utc (fst row) \<and>
        f_timestamp_utc (fst row) < 3600000000) \<and>
     (\<forall>f\<in>set (forecast_table duplicate_runs_session).
      \<forall>v\<in>set (forecast_value_table duplicate_runs_session).
        v_forecast_uuid v = f_forecast_uuid f \<and>
        horizon_where [1] 0 3600000000 30 (f, v) \<longrightarrow>
        (\<exists>!kept. kept \<in> set rows \<and>
           f_site_uuid (fst kept) = f_site_uuid f \<and>
           f_timestamp_utc (fst kept) = f_timestamp_utc f)) \<and>
     (\<forall>f\<in>set (forecast_table duplicate_runs_session).
      \<forall>v\<in>set (forecast_value_table duplicate_runs_session).
        v_forecast_uuid v = f_forecast_uuid f \<and>
        horizon_where [1] 0 3600000000 30 (f, v) \<and>
        (\<forall>f'\<in>set (forecast_table duplicate_runs_session).
         \<forall>v'\<in>set (forecast_value_table duplicate_runs_session).
           v_forecast_uuid v' = f_forecast_uuid f' \<and>
           horizon_where [1] 0 3600000000 30 (f', v') \<and>
           f_site_uuid f' = f_site_uuid f \<and> f_timestamp_utc f' = f_timestamp_utc f \<longrightarrow>
           (f', v') = (f, v)) \<longrightarrow>
        (f, v) \<in> set rows))"
  by (intro conjI duplicate_runs_bind
      horizon_rows_sound_and_one_per_key [OF duplicate_runs_bind])

text \<open>
  Claim C4, at the input where it fails. Two runs of site 1 were issued at the same time.
  Over the same rows, with the same arguments, the historical slice holds the row of
  \<open>run_a\<close> under one engine order and the row of \<open>run_b\<close> under another: the statement
  orders by site and issuance time only, and no tie-break decides between the two runs.
\<close>

theorem horizon_tie_left_to_engine:
  "forecast_table duplicate_runs_other_plan = forecast_table duplicate_runs_session \<and>
   forecast_value_table duplicate_runs_other_plan =
     forecast_value_table duplicate_runs_session \<and>
   bind_uuid duplicate_runs_other_plan = bind_uuid duplicate_runs_session \<and>
   fst (get_forecasts_for_horizon duplicate_runs_session
          [''00000000-0000-0000-0000-000000000001''] 0 3600000000 30) =
     Inr [(run_a, value_a)] \<and>
   fst (get_forecasts_for_horizon duplicate_runs_other_plan
          [''00000000-0000-0000-0000-000000000001''] 0 3600000000 30) =
     Inr [(run_b, value_b)] \<and>
   f_site_uuid run_a = f_site_uuid run_b \<and>
   f_timestamp_utc run_a = f_timestamp_utc run_b \<and>
   f_forecast_uuid run_a \<noteq> f_forecast_uuid run_b"
  by (simp add: duplicate_runs_rows duplicate_runs_rows_other_plan)
     (simp add: duplicate_runs_other_plan_def run_a_def run_b_def)

text \<open>
  Claim C4, amended. When the engine accepts the identifiers, the historical slice comes
  in ascending order of site and issuance time and holds at most one row, so rows of at
  most one run, for every site and issuance time, even when several runs share them.
  The row is one of the stored rows that pass the filters, and every site and issuance
  time of such a row has its row in the slice. Which of several such rows is the one
  kept is the engine's choice.
\<close>

theorem horizon_one_run_per_site_and_timestamp:
  assumes "those (map (bind_uuid session) site_uuids) = Some ids"
  shows "\<exists>rows.
     fst (get_forecasts_for_horizon session site_uuids start_utc end_utc horizon_minutes) =
       Inr rows \<and>
     sorted (map site_and_timestamp rows) \<and>
     distinct (map site_and_timestamp rows) \<and>
     (\<forall>r1\<in>set rows. \<forall>r2\<in>set rows.
        site_and_timestamp r1 = site_and_timestamp r2 \<longrightarrow> r1 = r2) \<and>
     (\<forall>row\<in>set rows.
        fst row \<in> set (forecast_table session) \<and>
        snd row \<in> set (forecast_value_table session) \<and>
        v_forecast_uuid (snd row) = f_forecast_uuid (fst row) \<and>
        horizon_where ids start_utc end_utc horizon_minutes row) \<and>
     (\<forall>f\<in>set (forecast_table session). \<forall>v\<in>set (forecast_value_table session).
        v_forecast_uuid v = f_forecast_uuid f \<and>
        horizon_where ids start_utc end_utc horizon_minutes (f, v) \<longrightarrow>
        (\<exists>kept\<in>set rows. site_and_timestamp kept = site_and_timestamp (f, v)))"
proof -
  define candidates where "candidates =
    filter (horizon_where ids start_utc end_utc horizon_minutes)
      (join_values (forecast_table session) (forecast_value_table session))"
  define ordered where
    "ordered = order_by site_and_timestamp (horizon_rank session) candidates"
  define rows where "rows = distinct_on site_and_timestamp ordered"
  have res: "fst (get_forecasts_for_horizon session site_uuids start_utc end_utc horizon_minutes)
      = Inr rows"
    using horizon_rows[OF assms] by (simp add: rows_def ordered_def candidates_def)
  have cand: "set candidates =
      {(f, v). f \<in> set (forecast_table session) \<and> v \<in> set (forecast_value_table session) \<and>
         v_forecast_uuid v = f_forecast_uuid f \<and>
         horizon_where ids start_utc end_utc horizon_minutes (f, v)}"
    by (auto simp: candidates_def set_join_values)
  have srt: "sorted (map site_and_timestamp ordered)"
    unfolding ordered_def by (rule sorted_order_by)
  have srt_rows: "sorted (map site_and_timestamp rows)"
    unfolding rows_def by (rule distinct_on_sorted[OF srt])
  have dist: "distinct (map site_and_timestamp rows)"
    unfolding rows_def by (rule distinct_on_distinct[OF srt])
  have same: "\<forall>r1\<in>set rows. \<forall>r2\<in>set rows.
        site_and_timestamp r1 = site_and_timestamp r2 \<longrightarrow> r1 = r2"
  proof (intro ballI impI)
    fix r1 r2
    assume "r1 \<in> set rows" "r2 \<in> set rows" "site_and_timestamp r1 = site_and_timestamp r2"
    moreover from dist have "inj_on site_and_timestamp (set rows)" by (simp add: distinct_map)
    ultimately show "r1 = r2" by (auto dest: inj_onD)
  qed
  have sub: "set rows \<subseteq> set candidates"
    using distinct_on_subset[of site_and_timestamp ordered]
    by (simp add: rows_def ordered_def set_order_by)
  have sound: "\<forall>row\<in>set rows.
        fst row \<in> set (forecast_table session) \<and>
        snd row \<in> set (forecast_value_table session) \<and>
        v_forecast_uuid (snd row) = f_forecast_uuid (fst row) \<and>
        horizon_where ids start_utc end_utc horizon_minutes row"
  proof
    fix row assume "row \<in> set rows"
    with sub have "row \<in> set candidates" by blast
    then show "fst row \<in> set (forecast_table session) \<and>
        snd row \<in> set (forecast_value_table session) \<and>
        v_forecast_uuid (snd row) = f_forecast_uuid (fst row) \<and>
        horizon_where ids start_utc end_utc horizon_minutes row"
      unfolding cand by auto
  qed
  have keys: "site_and_timestamp ` set rows = site_and_timestamp ` set candidates"
    by (simp add: rows_def ordered_def distinct_on_keys set_order_by)
  have complete: "\<forall>f\<in>set (forecast_table session). \<forall>v\<in>set (forecast_value_table session).
        v_forecast_uuid v = f_forecast_uuid f \<and>
        horizon_where ids start_utc end_utc horizon_minutes (f, v) \<longrightarrow>
        (\<exists>kept\<in>set rows. site_and_timestamp kept = site_and_timestamp (f, v))"
  proof (intro ballI impI, elim conjE)
    fix f v
    assume "f \<in> set (forecast_table session)" "v \<in> set (forecast_value_table session)"
      "v_forecast_uuid v = f_forecast_uuid f"
      "horizon_where ids start_utc end_utc horizon_minutes (f, v)"
    then have "(f, v) \<in> set candidates" unfolding cand by simp
    with keys have "site_and_timestamp (f, v) \<in> site_and_timestamp ` set rows" by blast
    then show "\<exists>kept\<in>set rows. site_and_timestamp kept = site_and_timestamp (f, v)"
      by auto
  qed
  show ?thesis
    by (intro exI[of _ rows] conjI res srt_rows dist same sound complete)
qed

theorem horizon_one_run_per_site_and_timestamp_witness:
  "those (map (bind_uuid duplicate_runs_session) [''00000000-0000-0000-0000-000000000001'']) =
     Some [1] \<and>
   (\<exists>rows.
     fst (get_forecasts_for_horizon duplicate_runs_session
            [''00000000-0000-0000-0000-000000000001''] 0 3600000000 30) = Inr rows \<and>
     sorted (map site_and_timestamp rows) \<and>
     distinct (map site_and_timestamp rows) \<and>
     (\<forall>r1\<in>set rows. \<forall>r2\<in>set rows.
        site_and_timestamp r1 = site_and_timestamp r2 \<longrightarrow> r1 = r2) \<and>
     (\<forall>row\<in>set rows.
        fst row \<in> set (forecast_table duplicate_runs_session) \<and>
        snd row \<in> set (forecast_value_table duplicate_runs_session) \<and>
        v_forecast_uuid (snd row) = f_forecast_uuid (fst row) \<and>
        horizon_where [1] 0 3600000000 30 row) \<and>
     (\<forall>f\<in>set (forecast_table duplicate_runs_session).
      \<forall>v\<in>set (forecast_value_table duplicate_runs_session).
        v_forecast_uuid v = f_forecast_uuid f \<and>
        horizon_where [1] 0 3600000000 30 (f, v) \<longrightarrow>
        (\<exists>kept\<in>set rows. site_and_timestamp kept = site_and_timestamp (f, v))))"
  by (intro conjI duplicate_runs_bind
      horizon_one_run_per_site_and_timestamp [OF duplicate_runs_bind])


section \<open>Properties of the Latest-Forecast Fetcher\<close>

lemma latest_subquery_subset:
  "set (latest_subquery rank ids runs) \<subseteq> {f \<in> set runs. f_site_uuid f \<in> set ids}"
  using distinct_on_subset[of f_site_uuid
      "order_by (\<lambda>f. (f_site_uuid f, - f_timestamp_utc f)) rank
         (filter (\<lambda>f. f_site_uuid f \<in> set ids) runs)"]
  by (auto simp: latest_subquery_def set_order_by)

lemma latest_subquery_sorted:
  "sorted (map f_site_uuid (latest_subquery rank ids runs))"
  unfolding latest_subquery_def
  by (rule distinct_on_sorted,
      rule sorted_map_fst_of_pair[where b = "\<lambda>f. - f_timestamp_utc f"])
     (rule sorted_order_by)

lemma latest_subquery_distinct:
  "distinct (map f_site_uuid (latest_subquery rank ids runs))"
  unfolding latest_subquery_def
  by (rule distinct_on_distinct,
      rule sorted_map_fst_of_pair[where b = "\<lambda>f. - f_timestamp_utc f"])
     (rule sorted_order_by)

lemma latest_subquery_sites:
  "f_site_uuid ` set (latest_subquery rank ids runs) =
     f_site_uuid ` {f \<in> set runs. f_site_uuid f \<in> set ids}"
  by (simp add: latest_subquery_def distinct_on_keys set_order_by)

lemma latest_subquery_latest:
  assumes "f \<in> set (latest_subquery rank ids runs)" and "g \<in> set runs"
    and "f_site_uuid g = f_site_uuid f"
  shows "f_timestamp_utc g \<le> f_timestamp_utc f"
proof -
  define L where "L = order_by (\<lambda>f. (f_site_uuid f, - f_timestamp_utc f)) rank
         (filter (\<lambda>f. f_site_uuid f \<in> set ids) runs)"
  have srt: "sorted (map (\<lambda>f. (f_site_uuid f, - f_timestamp_utc f)) L)"
    unfolding L_def by (rule sorted_order_by)
  then have srt1: "sorted (map f_site_uuid L)" by (rule sorted_map_fst_of_pair)
  from assms(1) have mem: "f \<in> set (distinct_on f_site_uuid L)"
    by (simp add: latest_subquery_def L_def)
  have first: "find (\<lambda>y. f_site_uuid y = f_site_uuid f) L = Some f"
    by (rule distinct_on_first[OF srt1 mem])
  from assms(1) latest_subquery_subset have "f_site_uuid f \<in> set ids" by blast
  with assms(2,3) have "g \<in> set L" by (simp add: L_def set_order_by)
  from find_sorted_le[OF srt first this assms(3)]
  show ?thesis using assms(3) by (simp add: less_eq_prod_def)
qed

lemma latest_rows:
  assumes "those (map UUID site_uuids) = Some ids"
  shows "fst (get_latest_forecast_by_sites UUID session site_uuids start_utc) =
     Inr (unordered (latest_rank session)
           (case start_utc of
              None \<Rightarrow>
                join_values (latest_subquery (subquery_rank session) ids (forecast_table session))
                  (forecast_value_table session)
            | Some t \<Rightarrow>
                filter (\<lambda>row. v_start_utc (snd row) \<ge> t)
                  (join_values
                    (latest_subquery (subquery_rank session) ids (forecast_table session))
                    (forecast_value_table session))))"
  using assms by (simp add: get_latest_forecast_by_sites_def Let_def)

lemma example_parse:
  "those (map UUID_hex [''00000000-0000-0000-0000-000000000001'']) = Some [1]"
  by (simp add: UUID_hex_1)

lemma example_bind:
  "those (map (bind_uuid example_session) [''00000000-0000-0000-0000-000000000001'']) = Some [1]"
  by (simp add: UUID_hex_1 example_session_def)

lemma example_past_rows:
  "fst (get_forecasts_for_horizon example_session
          [''00000000-0000-0000-0000-000000000001''] 0 7200000000 30) =
     Inr [(run_a, value_a)]"
  by (simp add: get_forecasts_for_horizon_def example_session_def UUID_hex_1
      join_values_def horizon_where_def timedelta_minutes_def site_and_timestamp_def
      order_by_def no_preference_def run_a_def run_new_def value_a_def value_new_def)

lemma example_past_rows_early:
  "fst (get_forecasts_for_horizon example_session
          [''00000000-0000-0000-0000-000000000001''] 0 1000000000 30) = Inr []"
  by (simp add: get_forecasts_for_horizon_def example_session_def UUID_hex_1
      join_values_def horizon_where_def timedelta_minutes_def site_and_timestamp_def
      order_by_def no_preference_def run_a_def run_new_def value_a_def value_new_def)

lemma example_future_rows:
  "fst (get_latest_forecast_by_sites UUID_hex example_session
          [''00000000-0000-0000-0000-000000000001''] (Some 0)) =
     Inr [(run_new, value_new)]"
  by (simp add: get_latest_forecast_by_sites_def example_session_def UUID_hex_1
      join_values_def latest_subquery_def Let_def order_by_def unordered_def
      no_preference_def run_a_def run_new_def value_a_def value_new_def)

lemma duplicate_latest_rows:
  "fst (get_latest_forecast_by_sites UUID_hex duplicate_runs_session
          [''00000000-0000-0000-0000-000000000001''] start_utc) =
     Inr [(run_a, value_a)]"
  if "start_utc = None \<or> start_utc = Some 0"
  using that
  by (auto simp add: get_latest_forecast_by_sites_def duplicate_runs_session_def UUID_hex_1
      join_values_def latest_subquery_def Let_def order_by_def unordered_def
      no_preference_def run_a_def run_b_def value_a_def value_b_def)

lemma duplicate_latest_rows_other_plan:
  "fst (get_latest_forecast_by_sites UUID_hex duplicate_runs_other_plan
          [''00000000-0000-0000-0000-000000000001''] start_utc) =
     Inr [(run_b, value_b)]"
  if "start_utc = None \<or> start_utc = Some 0"
  using that
  by (auto simp add: get_latest_forecast_by_sites_def duplicate_runs_other_plan_def
      duplicate_runs_session_def UUID_hex_1
      join_values_def latest_subquery_def Let_def order_by_def unordered_def
      no_preference_def prefer_run_def run_a_def run_b_def value_a_def value_b_def)

text \<open>
  Claim C5, at the input where it fails. Two runs of site 1 were issued at the same,
  latest, time. Over the same rows, with the same arguments, the fetcher returns the
  values of \<open>run_a\<close> under one engine order and those of \<open>run_b\<close> under another: the
  subquery orders by site and descending issuance time only, and nothing in the
  statement decides between runs tied on the latest time.
\<close>

theorem latest_tie_left_to_engine:
  "forecast_table duplicate_runs_other_plan = forecast_table duplicate_runs_session \<and>
   forecast_value_table duplicate_runs_other_plan =
     forecast_value_table duplicate_runs_session \<and>
   fst (get_latest_forecast_by_sites UUID_hex duplicate_runs_session
          [''00000000-0000-0000-0000-000000000001''] None) = Inr [(run_a, value_a)] \<and>
   fst (get_latest_forecast_by_sites UUID_hex duplicate_runs_other_plan
          [''00000000-0000-0000-0000-000000000001''] None) = Inr [(run_b, value_b)] \<and>
   f_site_uuid run_a = f_site_uuid run_b \<and>
   f_timestamp_utc run_a = f_timestamp_utc run_b \<and>
   f_forecast_uuid run_a \<noteq> f_forecast_uuid run_b"
  by (simp add: duplicate_latest_rows duplicate_latest_rows_other_plan)
     (simp add: duplicate_runs_other_plan_def run_a_def run_b_def)

text \<open>
  Claim C5, amended. When every identifier parses, \<^verbatim>\<open>_get_latest_forecast_by_sites\<close>
  returns rows, and every returned pair holds a stored run of a requested site that no
  run of that site was issued after, with a value of that run; with a lower bound \<open>t\<close>
  the value's target time is at least \<open>t\<close>. Rows of one site hold one and the same run.
  For every requested site with a stored run there is such a latest run all of whose
  values (those at or after the lower bound when there is one, all of them when there is
  none) are returned. Which of several runs tied on the latest issuance time is the one
  returned is the engine's choice.
\<close>

theorem latest_rows_of_latest_run_only:
  assumes "those (map UUID site_uuids) = Some ids"
  shows "\<exists>rows.
     fst (get_latest_forecast_by_sites UUID session site_uuids start_utc) = Inr rows \<and>
     (\<forall>row\<in>set rows.
        fst row \<in> set (forecast_table session) \<and>
        f_site_uuid (fst row) \<in> set ids \<and>
        (\<forall>g\<in>set (forecast_table session).
           f_site_uuid g = f_site_uuid (fst row) \<longrightarrow>
           f_timestamp_utc g \<le> f_timestamp_utc (fst row)) \<and>
        snd row \<in> set (forecast_value_table session) \<and>
        v_forecast_uuid (snd row) = f_forecast_uuid (fst row) \<and>
        (\<forall>t. start_utc = Some t \<longrightarrow> t \<le> v_start_utc (snd row))) \<and>
     (\<forall>r1\<in>set rows. \<forall>r2\<in>set rows.
        f_site_uuid (fst r1) = f_site_uuid (fst r2) \<longrightarrow> fst r1 = fst r2) \<and>
     (\<forall>g\<in>set (forecast_table session).
        f_site_uuid g \<in> set ids \<longrightarrow>
        (\<exists>f\<in>set (forecast_table session).
           f_site_uuid f = f_site_uuid g \<and> f_timestamp_utc g \<le> f_timestamp_utc f \<and>
           (\<forall>v\<in>set (forecast_value_table session).
              v_forecast_uuid v = f_forecast_uuid f \<and>
              (\<forall>t. start_utc = Some t \<longrightarrow> t \<le> v_start_utc v) \<longrightarrow>
              (f, v) \<in> set rows)))"
proof -
  define latest where
    "latest = latest_subquery (subquery_rank session) ids (forecast_table session)"
  define rows where "rows = unordered (latest_rank session)
          (case start_utc of
             None \<Rightarrow> join_values latest (forecast_value_table session)
           | Some t \<Rightarrow> filter (\<lambda>row. v_start_utc (snd row) \<ge> t)
                      (join_values latest (forecast_value_table session)))"
  have res: "fst (get_latest_forecast_by_sites UUID session site_uuids start_utc) = Inr rows"
    unfolding rows_def latest_def by (rule latest_rows[OF assms])
  have rows_set: "set rows =
      {(f, v). f \<in> set latest \<and> v \<in> set (forecast_value_table session) \<and>
         v_forecast_uuid v = f_forecast_uuid f \<and>
         (\<forall>t. start_utc = Some t \<longrightarrow> t \<le> v_start_utc v)}"
    by (cases start_utc) (auto simp: rows_def set_join_values set_unordered)
  have sub: "set latest \<subseteq> {f \<in> set (forecast_table session). f_site_uuid f \<in> set ids}"
    unfolding latest_def by (rule latest_subquery_subset)
  have sound: "fst row \<in> set (forecast_table session) \<and>
        f_site_uuid (fst row) \<in> set ids \<and>
        (\<forall>g\<in>set (forecast_table session).
           f_site_uuid g = f_site_uuid (fst row) \<longrightarrow>
           f_timestamp_utc g \<le> f_timestamp_utc (fst row)) \<and>
        snd row \<in> set (forecast_value_table session) \<and>
        v_forecast_uuid (snd row) = f_forecast_uuid (fst row) \<and>
        (\<forall>t. start_utc = Some t \<longrightarrow> t \<le> v_start_utc (snd row))"
    if "row \<in> set rows" for row
  proof -
    from that have l: "fst row \<in> set latest" and rest:
      "snd row \<in> set (forecast_value_table session)"
      "v_forecast_uuid (snd row) = f_forecast_uuid (fst row)"
      "\<forall>t. start_utc = Some t \<longrightarrow> t \<le> v_start_utc (snd row)"
      unfolding rows_set by auto
    from l sub have a: "fst row \<in> set (forecast_table session)" "f_site_uuid (fst row) \<in> set ids"
      by auto
    have "\<forall>g\<in>set (forecast_table session).
           f_site_uuid g = f_site_uuid (fst row) \<longrightarrow>
           f_timestamp_utc g \<le> f_timestamp_utc (fst row)"
      using latest_subquery_latest[OF l[unfolded latest_def]] by blast
    with a rest show ?thesis by blast
  qed
  have one: "fst r1 = fst r2"
    if "r1 \<in> set rows" "r2 \<in> set rows" "f_site_uuid (fst r1) = f_site_uuid (fst r2)" for r1 r2
  proof -
    have "inj_on f_site_uuid (set latest)"
      using latest_subquery_distinct[of "subquery_rank session" ids "forecast_table session"]
      by (simp add: distinct_map latest_def)
    moreover from that(1,2) have "fst r1 \<in> set latest" "fst r2 \<in> set latest"
      unfolding rows_set by auto
    ultimately show ?thesis using that(3) by (auto dest: inj_onD)
  qed
  have complete: "\<exists>f\<in>set (forecast_table session).
           f_site_uuid f = f_site_uuid g \<and> f_timestamp_utc g \<le> f_timestamp_utc f \<and>
           (\<forall>v\<in>set (forecast_value_table session).
              v_forecast_uuid v = f_forecast_uuid f \<and>
              (\<forall>t. start_utc = Some t \<longrightarrow> t \<le> v_start_utc v) \<longrightarrow>
              (f, v) \<in> set rows)"
    if "g \<in> set (forecast_table session)" "f_site_uuid g \<in> set ids" for g
  proof -
    from that have "f_site_uuid g \<in> f_site_uuid ` set latest"
      unfolding latest_def latest_subquery_sites by blast
    then obtain f where f: "f \<in> set latest" "f_site_uuid f = f_site_uuid g" by auto
    from f(1) sub have "f \<in> set (forecast_table session)" by blast
    moreover have "\<forall>v\<in>set (forecast_value_table session).
              v_forecast_uuid v = f_forecast_uuid f \<and>
              (\<forall>t. start_utc = Some t \<longrightarrow> t \<le> v_start_utc v) \<longrightarrow>
              (f, v) \<in> set rows"
      using f(1) unfolding rows_set by blast
    moreover have "f_timestamp_utc g \<le> f_timestamp_utc f"
      using latest_subquery_latest[OF f(1)[unfolded latest_def] that(1) f(2)[symmetric]] .
    ultimately show ?thesis using f(2) by blast
  qed
  show ?thesis
  proof (intro exI[of _ rows] conjI)
    show "fst (get_latest_forecast_by_sites UUID session site_uuids start_utc) = Inr rows"
      by (rule res)
  next
    show "\<forall>row\<in>set rows.
        fst row \<in> set (forecast_table session) \<and>
        f_site_uuid (fst row) \<in> set ids \<and>
        (\<forall>g\<in>set (forecast_table session).
           f_site_uuid g = f_site_uuid (fst row) \<longrightarrow>
           f_timestamp_utc g \<le> f_timestamp_utc (fst row)) \<and>
        snd row \<in> set (forecast_value_table session) \<and>
        v_forecast_uuid (snd row) = f_forecast_uuid (fst row) \<and>
        (\<forall>t. start_utc = Some t \<longrightarrow> t \<le> v_start_utc (snd row))"
      using sound by blast
  next
    show "\<forall>r1\<in>set rows. \<forall>r2\<in>set rows.
        f_site_uuid (fst r1) = f_site_uuid (fst r2) \<longrightarrow> fst r1 = fst r2"
      using one by blast
  next
    show "\<forall>g\<in>set (forecast_table session).
        f_site_uuid g \<in> set ids \<longrightarrow>
        (\<exists>f\<in>set (forecast_table session).
           f_site_uuid f = f_site_uuid g \<and> f_timestamp_utc g \<le> f_timestamp_utc f \<and>
           (\<forall>v\<in>set (forecast_value_table session).
              v_forecast_uuid v = f_forecast_uuid f \<and>
              (\<forall>t. start_utc = Some t \<longrightarrow> t \<le> v_start_utc v) \<longrightarrow>
              (f, v) \<in> set rows))"
      using complete by blast
  qed
qed


theorem latest_rows_of_latest_run_only_witness:
  "those (map UUID_hex [''00000000-0000-0000-0000-000000000001'']) = Some [1] \<and>
   (\<exists>rows.
     fst (get_latest_forecast_by_sites UUID_hex example_session
            [''00000000-0000-0000-0000-000000000001''] (Some 0)) = Inr rows \<and>
     (\<forall>row\<in>set rows.
        fst row \<in> set (forecast_table example_session) \<and>
        f_site_uuid (fst row) \<in> set [1] \<and>
        (\<forall>g\<in>set (forecast_table example_session).
           f_site_uuid g = f_site_uuid (fst row) \<longrightarrow>
           f_timestamp_utc g \<le> f_timestamp_utc (fst row)) \<and>
        snd row \<in> set (forecast_value_table example_session) \<and>
        v_forecast_uuid (snd row) = f_forecast_uuid (fst row) \<and>
        (\<forall>t. Some 0 = Some t \<longrightarrow> t \<le> v_start_utc (snd row))) \<and>
     (\<forall>r1\<in>set rows. \<forall>r2\<in>set rows.
        f_site_uuid (fst r1) = f_site_uuid (fst r2) \<longrightarrow> fst r1 = fst r2) \<and>
     (\<forall>g\<in>set (forecast_table example_session).
        f_site_uuid g \<in> set [1] \<longrightarrow>
        (\<exists>f\<in>set (forecast_table example_session).
           f_site_uuid f = f_site_uuid g \<and> f_timestamp_utc g \<le> f_timestamp_utc f \<and>
           (\<forall>v\<in>set (forecast_value_table example_session).
              v_forecast_uuid v = f_forecast_uuid f \<and>
              (\<forall>t. Some 0 = Some t \<longrightarrow> t \<le> v_start_utc v) \<longrightarrow>
              (f, v) \<in> set rows))))"
  by (intro conjI example_parse latest_rows_of_latest_run_only [OF example_parse])

section \<open>Properties of the Forecast Merge Engine\<close>

lemma forecasts_fst:
  "fst (get_forecasts_by_sites forecast_rows_to_pydantic forecast_rows_to_pydantic_compact UUID
          utcnow session site_uuids start_utc horizon_minutes compact) =
     (case fst (get_forecasts_for_horizon session site_uuids start_utc utcnow horizon_minutes) of
        Inl e \<Rightarrow> Inl e
      | Inr rows_past \<Rightarrow>
          (case fst (get_latest_forecast_by_sites UUID session site_uuids (Some start_utc)) of
             Inl e \<Rightarrow> Inl e
           | Inr rows_future \<Rightarrow>
               Inr (if compact
                    then Inr (forecast_rows_to_pydantic_compact (rows_past @ rows_future))
                    else Inl (forecast_rows_to_pydantic (rows_past @ rows_future)))))"
  by (auto simp: get_forecasts_by_sites_def get_forecasts_for_horizon_def
      get_latest_forecast_by_sites_def execute_def Let_def split: option.splits)

text \<open>
  Claim C6. When both fetchers return rows, \<^verbatim>\<open>get_forecasts_by_sites\<close> returns the
  requested converter applied to the historical rows followed by the forward rows: the
  list handed to the converter is that concatenation, with nothing removed.
\<close>

theorem forecasts_are_past_then_future:
  assumes "fst (get_forecasts_for_horizon session site_uuids start_utc utcnow horizon_minutes) =
             Inr rows_past"
    and "fst (get_latest_forecast_by_sites UUID session site_uuids (Some start_utc)) =
             Inr rows_future"
  shows "fst (get_forecasts_by_sites forecast_rows_to_pydantic forecast_rows_to_pydantic_compact
                UUID utcnow session site_uuids start_utc horizon_minutes compact) =
           Inr (if compact
                then Inr (forecast_rows_to_pydantic_compact (rows_past @ rows_future))
                else Inl (forecast_rows_to_pydantic (rows_past @ rows_future)))"
  using assms by (simp add: forecasts_fst)

theorem forecasts_are_past_then_future_witness:
  "fst (get_forecasts_for_horizon example_session
          [''00000000-0000-0000-0000-000000000001''] 0 7200000000 30) = Inr [(run_a, value_a)] \<and>
   fst (get_latest_forecast_by_sites UUID_hex example_session
          [''00000000-0000-0000-0000-000000000001''] (Some 0)) = Inr [(run_new, value_new)] \<and>
   fst (get_forecasts_by_sites id length UUID_hex 7200000000 example_session
          [''00000000-0000-0000-0000-000000000001''] 0 30 False) =
     Inr (Inl [(run_a, value_a), (run_new, value_new)]) \<and>
   fst (get_forecasts_by_sites id length UUID_hex 7200000000 example_session
          [''00000000-0000-0000-0000-000000000001''] 0 30 True) = Inr (Inr 2)"
  using forecasts_are_past_then_future [OF example_past_rows example_future_rows,
      of id length False]
    forecasts_are_past_then_future [OF example_past_rows example_future_rows,
      of id length True]
  by (simp add: example_past_rows example_future_rows)

lemma horizon_keys:
  "map site_and_timestamp
     (distinct_on site_and_timestamp (order_by site_and_timestamp rank1 cand)) =
   map site_and_timestamp
     (distinct_on site_and_timestamp (order_by site_and_timestamp rank2 cand))"
proof (rule sorted_distinct_set_unique)
  show "sorted (map site_and_timestamp
     (distinct_on site_and_timestamp (order_by site_and_timestamp rank1 cand)))"
    by (rule distinct_on_sorted, rule sorted_order_by)
  show "sorted (map site_and_timestamp
     (distinct_on site_and_timestamp (order_by site_and_timestamp rank2 cand)))"
    by (rule distinct_on_sorted, rule sorted_order_by)
  show "distinct (map site_and_timestamp
     (distinct_on site_and_timestamp (order_by site_and_timestamp rank1 cand)))"
    by (rule distinct_on_distinct, rule sorted_order_by)
  show "distinct (map site_and_timestamp
     (distinct_on site_and_timestamp (order_by site_and_timestamp rank2 cand)))"
    by (rule distinct_on_distinct, rule sorted_order_by)
  show "set (map site_and_timestamp
     (distinct_on site_and_timestamp (order_by site_and_timestamp rank1 cand))) =
    set (map site_and_timestamp
     (distinct_on site_and_timestamp (order_by site_and_timestamp rank2 cand)))"
    by (simp add: distinct_on_keys set_order_by)
qed

lemma latest_subquery_site_list:
  "map f_site_uuid (latest_subquery rank1 ids runs) =
   map f_site_uuid (latest_subquery rank2 ids runs)"
  by (rule sorted_distinct_set_unique)
     (simp_all add: latest_subquery_sorted latest_subquery_distinct latest_subquery_sites)

lemma latest_subquery_unique:
  assumes "\<forall>f\<in>set runs. \<forall>f'\<in>set runs.
     f_site_uuid f' = f_site_uuid f \<and> f_timestamp_utc f' = f_timestamp_utc f \<longrightarrow> f' = f"
  shows "latest_subquery rank1 ids runs = latest_subquery rank2 ids runs"
proof (rule map_eq_imp_eq[where f = f_site_uuid])
  show "map f_site_uuid (latest_subquery rank1 ids runs) =
      map f_site_uuid (latest_subquery rank2 ids runs)"
    by (rule latest_subquery_site_list)
  show "\<forall>x\<in>set (latest_subquery rank1 ids runs). \<forall>y\<in>set (latest_subquery rank2 ids runs).
      f_site_uuid x = f_site_uuid y \<longrightarrow> x = y"
  proof (intro ballI impI)
    fix x y
    assume x: "x \<in> set (latest_subquery rank1 ids runs)"
      and y: "y \<in> set (latest_subquery rank2 ids runs)"
      and s: "f_site_uuid x = f_site_uuid y"
    from x y have xr: "x \<in> set runs" and yr: "y \<in> set runs"
      using latest_subquery_subset by blast+
    have "f_timestamp_utc y \<le> f_timestamp_utc x"
      by (rule latest_subquery_latest[OF x yr s[symmetric]])
    moreover have "f_timestamp_utc x \<le> f_timestamp_utc y"
      by (rule latest_subquery_latest[OF y xr s])
    ultimately have "f_timestamp_utc x = f_timestamp_utc y" by simp
    with assms xr yr s show "x = y" by metis
  qed
qed

text \<open>
  Claim C10, at the inputs where it fails. The end of the historical window is read
  from the clock, so two executions over the same store with the same arguments differ
  when the clock reads minute 16 and minute 120: in between, the value of \<open>run_a\<close> has
  entered the historical window. And with the same clock reading, over the same rows
  with two runs of one site issued at the same time, the output holds the rows of
  \<open>run_a\<close> under one engine order and those of \<open>run_b\<close> under another.
\<close>

theorem forecasts_differ_with_clock_and_engine:
  "fst (get_forecasts_by_sites id id UUID_hex 1000000000 example_session
          [''00000000-0000-0000-0000-000000000001''] 0 30 False) =
     Inr (Inl [(run_new, value_new)]) \<and>
   fst (get_forecasts_by_sites id id UUID_hex 7200000000 example_session
          [''00000000-0000-0000-0000-000000000001''] 0 30 False) =
     Inr (Inl [(run_a, value_a), (run_new, value_new)]) \<and>
   fst (get_forecasts_by_sites id id UUID_hex 1000000000 example_session
          [''00000000-0000-0000-0000-000000000001''] 0 30 False) \<noteq>
   fst (get_forecasts_by_sites id id UUID_hex 7200000000 example_session
          [''00000000-0000-0000-0000-000000000001''] 0 30 False) \<and>
   forecast_table duplicate_runs_other_plan = forecast_table duplicate_runs_session \<and>
   forecast_value_table duplicate_runs_other_plan =
     forecast_value_table duplicate_runs_session \<and>
   fst (get_forecasts_by_sites id id UUID_hex 3600000000 duplicate_runs_session
          [''00000000-0000-0000-0000-000000000001''] 0 30 False) =
     Inr (Inl [(run_a, value_a), (run_a, value_a)]) \<and>
   fst (get_forecasts_by_sites id id UUID_hex 3600000000 duplicate_runs_other_plan
          [''00000000-0000-0000-0000-000000000001''] 0 30 False) =
     Inr (Inl [(run_b, value_b), (run_b, value_b)]) \<and>
   fst (get_forecasts_by_sites id id UUID_hex 3600000000 duplicate_runs_session
          [''00000000-0000-0000-0000-000000000001''] 0 30 False) \<noteq>
   fst (get_forecasts_by_sites id id UUID_hex 3600000000 duplicate_runs_other_plan
          [''00000000-0000-0000-0000-000000000001''] 0 30 False)"
  by (simp add: forecasts_fst example_past_rows example_past_rows_early example_future_rows
      duplicate_runs_rows duplicate_runs_rows_other_plan duplicate_latest_rows
      duplicate_latest_rows_other_plan)
     (simp add: duplicate_runs_other_plan_def run_a_def run_b_def)

text \<open>
  Claim C10, amended. Take two executions over the same stored rows with the same engine
  conversion, the same arguments and the same clock reading, in which the identifiers
  are accepted; the engine may order rows differently in the two. Both return the
  converter applied to the historical rows followed by the forward rows. The historical
  rows of both carry the same sites and issuance times in the same, ascending, order,
  one row for each; they are the same rows when no two stored pairs that pass the
  filters share a site and issuance time. The forward rows of both are the same rows,
  each as many times, when no two stored runs share a site and issuance time. Nothing is
  said on the order of the forward rows.
\<close>

theorem forecasts_of_two_executions:
  assumes t: "forecast_table s1 = forecast_table s2"
    and v: "forecast_value_table s1 = forecast_value_table s2"
    and b: "bind_uuid s1 = bind_uuid s2"
    and bind: "those (map (bind_uuid s1) site_uuids) = Some ids"
    and parse: "those (map UUID site_uuids) = Some parsed"
  shows "\<exists>past1 past2 future1 future2.
     fst (get_forecasts_by_sites forecast_rows_to_pydantic forecast_rows_to_pydantic_compact
            UUID utcnow s1 site_uuids start_utc horizon_minutes compact) =
       Inr (if compact
            then Inr (forecast_rows_to_pydantic_compact (past1 @ future1))
            else Inl (forecast_rows_to_pydantic (past1 @ future1))) \<and>
     fst (get_forecasts_by_sites forecast_rows_to_pydantic forecast_rows_to_pydantic_compact
            UUID utcnow s2 site_uuids start_utc horizon_minutes compact) =
       Inr (if compact
            then Inr (forecast_rows_to_pydantic_compact (past2 @ future2))
            else Inl (forecast_rows_to_pydantic (past2 @ future2))) \<and>
     fst (get_forecasts_for_horizon s1 site_uuids start_utc utcnow horizon_minutes) =
       Inr past1 \<and>
     fst (get_forecasts_for_horizon s2 site_uuids start_utc utcnow horizon_minutes) =
       Inr past2 \<and>
     fst (get_latest_forecast_by_sites UUID s1 site_uuids (Some start_utc)) = Inr future1 \<and>
     fst (get_latest_forecast_by_sites UUID s2 site_uuids (Some start_utc)) = Inr future2 \<and>
     map site_and_timestamp past1 = map site_and_timestamp past2 \<and>
     sorted (map site_and_timestamp past1) \<and>
     distinct (map site_and_timestamp past1) \<and>
     ((\<forall>f\<in>set (forecast_table s1). \<forall>v\<in>set (forecast_value_table s1).
       \<forall>f'\<in>set (forecast_table s1). \<forall>v'\<in>set (forecast_value_table s1).
         v_forecast_uuid v = f_forecast_uuid f \<and>
         horizon_where ids start_utc utcnow horizon_minutes (f, v) \<and>
         v_forecast_uuid v' = f_forecast_uuid f' \<and>
         horizon_where ids start_utc utcnow horizon_minutes (f', v') \<and>
         site_and_timestamp (f', v') = site_and_timestamp (f, v) \<longrightarrow>
         (f', v') = (f, v)) \<longrightarrow>
      past1 = past2) \<and>
     ((\<forall>f\<in>set (forecast_table s1). \<forall>f'\<in>set (forecast_table s1).
         f_site_uuid f' = f_site_uuid f \<and> f_timestamp_utc f' = f_timestamp_utc f \<longrightarrow>
         f' = f) \<longrightarrow>
      mset future1 = mset future2)"
proof -
  define cand where "cand = filter (horizon_where ids start_utc utcnow horizon_minutes)
      (join_values (forecast_table s1) (forecast_value_table s1))"
  define past where "past rank =
      distinct_on site_and_timestamp (order_by site_and_timestamp rank cand)" for rank
  define latest where "latest rank = latest_subquery rank parsed (forecast_table s1)" for rank
  define future where "future rank rank' = unordered rank'
      (filter (\<lambda>row. v_start_utc (snd row) \<ge> start_utc)
         (join_values (latest rank) (forecast_value_table s1)))" for rank rank'
  from b bind have bind2: "those (map (bind_uuid s2) site_uuids) = Some ids" by simp
  have p1: "fst (get_forecasts_for_horizon s1 site_uuids start_utc utcnow horizon_minutes) =
      Inr (past (horizon_rank s1))"
    unfolding past_def cand_def by (rule horizon_rows[OF bind])
  have p2: "fst (get_forecasts_for_horizon s2 site_uuids start_utc utcnow horizon_minutes) =
      Inr (past (horizon_rank s2))"
    unfolding past_def cand_def t v by (rule horizon_rows[OF bind2])
  have f1: "fst (get_latest_forecast_by_sites UUID s1 site_uuids (Some start_utc)) =
      Inr (future (subquery_rank s1) (latest_rank s1))"
    using latest_rows[OF parse, of s1 "Some start_utc"]
    by (simp add: future_def latest_def)
  have f2: "fst (get_latest_forecast_by_sites UUID s2 site_uuids (Some start_utc)) =
      Inr (future (subquery_rank s2) (latest_rank s2))"
    using latest_rows[OF parse, of s2 "Some start_utc"]
    by (simp add: future_def latest_def t v)
  have o1: "fst (get_forecasts_by_sites forecast_rows_to_pydantic
            forecast_rows_to_pydantic_compact
            UUID utcnow s1 site_uuids start_utc horizon_minutes compact) =
       Inr (if compact
            then Inr (forecast_rows_to_pydantic_compact
                   (past (horizon_rank s1) @ future (subquery_rank s1) (latest_rank s1)))
            else Inl (forecast_rows_to_pydantic
                   (past (horizon_rank s1) @ future (subquery_rank s1) (latest_rank s1))))"
    by (simp add: forecasts_fst p1 f1)
  have o2: "fst (get_forecasts_by_sites forecast_rows_to_pydantic
            forecast_rows_to_pydantic_compact
            UUID utcnow s2 site_uuids start_utc horizon_minutes compact) =
       Inr (if compact
            then Inr (forecast_rows_to_pydantic_compact
                   (past (horizon_rank s2) @ future (subquery_rank s2) (latest_rank s2)))
            else Inl (forecast_rows_to_pydantic
                   (past (horizon_rank s2) @ future (subquery_rank s2) (latest_rank s2))))"
    by (simp add: forecasts_fst p2 f2)
  have keys: "map site_and_timestamp (past (horizon_rank s1)) =
      map site_and_timestamp (past (horizon_rank s2))"
    unfolding past_def by (rule horizon_keys)
  have srt: "sorted (map site_and_timestamp (past (horizon_rank s1)))"
    unfolding past_def by (rule distinct_on_sorted, rule sorted_order_by)
  have dist: "distinct (map site_and_timestamp (past (horizon_rank s1)))"
    unfolding past_def by (rule distinct_on_distinct, rule sorted_order_by)
  have sub: "set (past rank) \<subseteq> set cand" for rank
    using distinct_on_subset[of site_and_timestamp "order_by site_and_timestamp rank cand"]
    by (simp add: past_def set_order_by)
  have cand_set: "set cand =
      {(f, v). f \<in> set (forecast_table s1) \<and> v \<in> set (forecast_value_table s1) \<and>
         v_forecast_uuid v = f_forecast_uuid f \<and>
         horizon_where ids start_utc utcnow horizon_minutes (f, v)}"
    by (auto simp: cand_def set_join_values)
  have same_past: "past (horizon_rank s1) = past (horizon_rank s2)"
    if u: "\<forall>f\<in>set (forecast_table s1). \<forall>v\<in>set (forecast_value_table s1).
       \<forall>f'\<in>set (forecast_table s1). \<forall>v'\<in>set (forecast_value_table s1).
         v_forecast_uuid v = f_forecast_uuid f \<and>
         horizon_where ids start_utc utcnow horizon_minutes (f, v) \<and>
         v_forecast_uuid v' = f_forecast_uuid f' \<and>
         horizon_where ids start_utc utcnow horizon_minutes (f', v') \<and>
         site_and_timestamp (f', v') = site_and_timestamp (f, v) \<longrightarrow>
         (f', v') = (f, v)"
  proof (rule map_eq_imp_eq[OF keys], intro ballI impI)
    fix x y
    assume "x \<in> set (past (horizon_rank s1))" "y \<in> set (past (horizon_rank s2))"
      and k: "site_and_timestamp x = site_and_timestamp y"
    with sub have "x \<in> set cand" "y \<in> set cand" by blast+
    then have x: "fst x \<in> set (forecast_table s1)" "snd x \<in> set (forecast_value_table s1)"
        "v_forecast_uuid (snd x) = f_forecast_uuid (fst x)"
        "horizon_where ids start_utc utcnow horizon_minutes (fst x, snd x)"
      and y: "fst y \<in> set (forecast_table s1)" "snd y \<in> set (forecast_value_table s1)"
        "v_forecast_uuid (snd y) = f_forecast_uuid (fst y)"
        "horizon_where ids start_utc utcnow horizon_minutes (fst y, snd y)"
      unfolding cand_set by auto
    from k have "site_and_timestamp (fst x, snd x) = site_and_timestamp (fst y, snd y)"
      by simp
    with u x y have "(fst x, snd x) = (fst y, snd y)" by blast
    then show "x = y" by (simp add: prod_eq_iff)
  qed
  have same_future: "mset (future (subquery_rank s1) (latest_rank s1)) =
      mset (future (subquery_rank s2) (latest_rank s2))"
    if "\<forall>f\<in>set (forecast_table s1). \<forall>f'\<in>set (forecast_table s1).
         f_site_uuid f' = f_site_uuid f \<and> f_timestamp_utc f' = f_timestamp_utc f \<longrightarrow>
         f' = f"
  proof -
    have "latest (subquery_rank s1) = latest (subquery_rank s2)"
      unfolding latest_def by (rule latest_subquery_unique[OF that])
    then show ?thesis by (simp add: future_def mset_unordered)
  qed
  show ?thesis
    apply (rule exI[of _ "past (horizon_rank s1)"])
    apply (rule exI[of _ "past (horizon_rank s2)"])
    apply (rule exI[of _ "future (subquery_rank s1) (latest_rank s1)"])
    apply (rule exI[of _ "future (subquery_rank s2) (latest_rank s2)"])
    apply (intro conjI o1 o2 p1 p2 f1 f2 keys srt dist)
     apply (rule impI, erule same_past)
    apply (rule impI, erule same_future)
    done
qed


theorem forecasts_of_two_executions_witness:
  "forecast_table example_session = forecast_table example_session_other_plan \<and>
   forecast_value_table example_session = forecast_value_table example_session_other_plan \<and>
   bind_uuid example_session = bind_uuid example_session_other_plan \<and>
   horizon_rank example_session (run_a, value_a) \<noteq>
     horizon_rank example_session_other_plan (run_a, value_a) \<and>
   those (map (bind_uuid example_session) [''00000000-0000-0000-0000-000000000001'']) =
     Some [1] \<and>
   those (map UUID_hex [''00000000-0000-0000-0000-000000000001'']) = Some [1] \<and>
   (\<exists>past future1 future2.
      fst (get_forecasts_by_sites id id UUID_hex 7200000000 example_session
             [''00000000-0000-0000-0000-000000000001''] 0 30 False) =
        Inr (Inl (past @ future1)) \<and>
      fst (get_forecasts_by_sites id id UUID_hex 7200000000 example_session_other_plan
             [''00000000-0000-0000-0000-000000000001''] 0 30 False) =
        Inr (Inl (past @ future2)) \<and>
      sorted (map site_and_timestamp past) \<and>
      distinct (map site_and_timestamp past) \<and>
      mset future1 = mset future2)"
proof -
  have t: "forecast_table example_session = forecast_table example_session_other_plan"
    by (simp add: example_session_other_plan_def)
  have v: "forecast_value_table example_session =
      forecast_value_table example_session_other_plan"
    by (simp add: example_session_other_plan_def)
  have b: "bind_uuid example_session = bind_uuid example_session_other_plan"
    by (simp add: example_session_other_plan_def)
  have r: "horizon_rank example_session (run_a, value_a) \<noteq>
     horizon_rank example_session_other_plan (run_a, value_a)"
    by (simp add: example_session_other_plan_def example_session_def no_preference_def
        prefer_row_def prefer_run_def run_a_def)
  have one_pair: "\<forall>f\<in>set (forecast_table example_session).
       \<forall>v\<in>set (forecast_value_table example_session).
       \<forall>f'\<in>set (forecast_table example_session).
       \<forall>v'\<in>set (forecast_value_table example_session).
         v_forecast_uuid v = f_forecast_uuid f \<and>
         horizon_where [1] 0 7200000000 30 (f, v) \<and>
         v_forecast_uuid v' = f_forecast_uuid f' \<and>
         horizon_where [1] 0 7200000000 30 (f', v') \<and>
         site_and_timestamp (f', v') = site_and_timestamp (f, v) \<longrightarrow>
         (f', v') = (f, v)"
    by (simp add: example_session_def run_a_def run_new_def value_a_def value_new_def
        horizon_where_def site_and_timestamp_def)
  have one_run: "\<forall>f\<in>set (forecast_table example_session).
       \<forall>f'\<in>set (forecast_table example_session).
         f_site_uuid f' = f_site_uuid f \<and> f_timestamp_utc f' = f_timestamp_utc f \<longrightarrow>
         f' = f"
    by (simp add: example_session_def run_a_def run_new_def)
  from forecasts_of_two_executions
    [where ?s1.0 = example_session and ?s2.0 = example_session_other_plan
       and UUID = UUID_hex and utcnow = 7200000000
       and site_uuids = "[''00000000-0000-0000-0000-000000000001'']"
       and start_utc = 0 and horizon_minutes = 30 and compact = False
       and forecast_rows_to_pydantic = id and forecast_rows_to_pydantic_compact = id,
     OF t v b example_bind example_parse]
  obtain past1 past2 future1 future2 where
    o1: "fst (get_forecasts_by_sites id id UUID_hex 7200000000 example_session
             [''00000000-0000-0000-0000-000000000001''] 0 30 False) =
        Inr (if False then Inr (id (past1 @ future1)) else Inl (id (past1 @ future1)))"
    and o2: "fst (get_forecasts_by_sites id id UUID_hex 7200000000 example_session_other_plan
             [''00000000-0000-0000-0000-000000000001''] 0 30 False) =
        Inr (if False then Inr (id (past2 @ future2)) else Inl (id (past2 @ future2)))"
    and srt: "sorted (map site_and_timestamp past1)"
    and dist: "distinct (map site_and_timestamp past1)"
    and same_past: "(\<forall>f\<in>set (forecast_table example_session).
       \<forall>v\<in>set (forecast_value_table example_session).
       \<forall>f'\<in>set (forecast_table example_session).
       \<forall>v'\<in>set (forecast_value_table example_session).
         v_forecast_uuid v = f_forecast_uuid f \<and>
         horizon_where [1] 0 7200000000 30 (f, v) \<and>
         v_forecast_uuid v' = f_forecast_uuid f' \<and>
         horizon_where [1] 0 7200000000 30 (f', v') \<and>
         site_and_timestamp (f', v') = site_and_timestamp (f, v) \<longrightarrow>
         (f', v') = (f, v)) \<longrightarrow> past1 = past2"
    and same_future: "(\<forall>f\<in>set (forecast_table example_session).
       \<forall>f'\<in>set (forecast_table example_session).
         f_site_uuid f' = f_site_uuid f \<and> f_timestamp_utc f' = f_timestamp_utc f \<longrightarrow>
         f' = f) \<longrightarrow> mset future1 = mset future2"
    by (elim exE conjE) (rule that)
  from same_past one_pair have p: "past1 = past2" by (rule mp)
  from same_future one_run have f: "mset future1 = mset future2" by (rule mp)
  have "\<exists>past future1 future2.
      fst (get_forecasts_by_sites id id UUID_hex 7200000000 example_session
             [''00000000-0000-0000-0000-000000000001''] 0 30 False) =
        Inr (Inl (past @ future1)) \<and>
      fst (get_forecasts_by_sites id id UUID_hex 7200000000 example_session_other_plan
             [''00000000-0000-0000-0000-000000000001''] 0 30 False) =
        Inr (Inl (past @ future2)) \<and>
      sorted (map site_and_timestamp past) \<and>
      distinct (map site_and_timestamp past) \<and>
      mset future1 = mset future2"
    using o1 o2 srt dist f unfolding p by (intro exI[of _ past2] exI[of _ future1]
        exI[of _ future2]) simp
  with t v b r example_bind example_parse show ?thesis by (intro conjI)
qed

section \<open>Properties of the Generation Retriever\<close>

lemma UUID_hex_2: "UUID_hex ''00000000-0000-0000-0000-000000000002'' = Some 2"
  by code_simp

lemma UUID_hex_malformed: "UUID_hex ''not-a-uuid'' = None"
  by code_simp

lemma mset_append_under:
  "mset (concat (map (\<lambda>(k, vs). map (Pair k) vs) (append_under k v groups))) =
     add_mset (k, v) (mset (concat (map (\<lambda>(k, vs). map (Pair k) vs) groups)))"
  by (induction groups) auto

lemma mset_fold_append_under:
  "mset (concat (map (\<lambda>(k, vs). map (Pair k) vs)
           (fold (\<lambda>row. append_under (kf row) (vf row)) rows acc))) =
     mset (map (\<lambda>row. (kf row, vf row)) rows) +
     mset (concat (map (\<lambda>(k, vs). map (Pair k) vs) acc))"
  by (induction rows arbitrary: acc) (auto simp: mset_append_under)

lemma readings_per_site_flat:
  "readings_per_site groups =
     map (\<lambda>(site, (t, kw)). (site, t, kw)) (concat (map (\<lambda>(k, vs). map (Pair k) vs) groups))"
  by (induction groups) (auto simp: readings_per_site_def)

lemma readings_per_timestamp_flat:
  "readings_per_timestamp groups =
     map (\<lambda>(t, (site, kw)). (site, t, kw)) (concat (map (\<lambda>(k, vs). map (Pair k) vs) groups))"
  by (induction groups) (auto simp: readings_per_timestamp_def)

lemma per_site_readings:
  "mset (readings_per_site (generation_rows_to_pydantic [] rows site_uuids)) =
     mset (map reading_of_row rows)"
proof -
  have "mset (readings_per_site (generation_rows_to_pydantic [] rows site_uuids)) =
      image_mset (\<lambda>(site, (t, kw)). (site, t, kw))
        (mset (map (\<lambda>row. (str_UUID (g_site_uuid row),
                 (g_start_utc row, g_generation_power_kw row))) rows))"
    unfolding readings_per_site_flat generation_rows_to_pydantic_def mset_map
      mset_fold_append_under by simp
  also have "\<dots> = mset (map reading_of_row rows)"
    by (simp add: image_mset.compositionality comp_def reading_of_row_def [abs_def])
  finally show ?thesis .
qed

lemma per_timestamp_readings:
  "mset (readings_per_timestamp (generation_rows_to_pydantic_compact rows)) =
     mset (map reading_of_row rows)"
proof -
  have "mset (readings_per_timestamp (generation_rows_to_pydantic_compact rows)) =
      image_mset (\<lambda>(t, (site, kw)). (site, t, kw))
        (mset (map (\<lambda>row. (g_start_utc row,
                 (str_UUID (g_site_uuid row), g_generation_power_kw row))) rows))"
    unfolding readings_per_timestamp_flat generation_rows_to_pydantic_compact_def mset_map
      mset_fold_append_under by simp
  also have "\<dots> = mset (map reading_of_row rows)"
    by (simp add: image_mset.compositionality comp_def reading_of_row_def [abs_def])
  finally show ?thesis .
qed

lemma example_parse_two:
  "those (map UUID_hex [''00000000-0000-0000-0000-000000000001'',
                         ''00000000-0000-0000-0000-000000000002'']) = Some [1, 2]"
  by (simp add: UUID_hex_1 UUID_hex_2)

lemma example_generation_fetch:
  "stored_generation example_generation empty_session 0 [1, 2] = Inr example_generation"
  by (simp add: stored_generation_def example_generation_def)

text \<open>
  Claim C7. When every identifier parses and the fetch returns readings, empty or not,
  \<^verbatim>\<open>get_generation_by_sites\<close> returns the per-site grouping for \<^verbatim>\<open>compact=False\<close>
  and the per-timestamp grouping for \<^verbatim>\<open>compact=True\<close>, and the readings held by
  either grouping are, as a multiset, the readings fetched: none is dropped and none is
  duplicated.
\<close>

theorem generation_readings_appear_once:
  assumes "those (map UUID site_uuids) = Some ids"
    and "get_pv_generation_by_sites session start_utc ids = Inr rows"
  shows "\<exists>per_site per_timestamp.
     fst (get_generation_by_sites get_pv_generation_by_sites generation_rows_to_pydantic
            generation_rows_to_pydantic_compact UUID session site_uuids start_utc False) =
       Inr (Inl per_site) \<and>
     mset (readings_per_site per_site) = mset (map reading_of_row rows) \<and>
     fst (get_generation_by_sites get_pv_generation_by_sites generation_rows_to_pydantic
            generation_rows_to_pydantic_compact UUID session site_uuids start_utc True) =
       Inr (Inr per_timestamp) \<and>
     mset (readings_per_timestamp per_timestamp) = mset (map reading_of_row rows)"
  using assms
  by (simp add: get_generation_by_sites_def per_site_readings per_timestamp_readings)

theorem generation_readings_appear_once_witness:
  "those (map UUID_hex [''00000000-0000-0000-0000-000000000001'',
                         ''00000000-0000-0000-0000-000000000002'']) = Some [1, 2] \<and>
   stored_generation example_generation empty_session 0 [1, 2] = Inr example_generation \<and>
   example_generation \<noteq> [] \<and>
   (\<exists>per_site per_timestamp.
     fst (get_generation_by_sites (stored_generation example_generation)
            generation_rows_to_pydantic generation_rows_to_pydantic_compact UUID_hex
            empty_session
            [''00000000-0000-0000-0000-000000000001'', ''00000000-0000-0000-0000-000000000002'']
            0 False) = Inr (Inl per_site) \<and>
     mset (readings_per_site per_site) = mset (map reading_of_row example_generation) \<and>
     fst (get_generation_by_sites (stored_generation example_generation)
            generation_rows_to_pydantic generation_rows_to_pydantic_compact UUID_hex
            empty_session
            [''00000000-0000-0000-0000-000000000001'', ''00000000-0000-0000-0000-000000000002'']
            0 True) = Inr (Inr per_timestamp) \<and>
     mset (readings_per_timestamp per_timestamp) = mset (map reading_of_row example_generation))"
proof -
  have ne: "example_generation \<noteq> []" by (simp add: example_generation_def)
  show ?thesis
    by (intro conjI example_parse_two example_generation_fetch ne
        generation_readings_appear_once
          [where UUID = UUID_hex and session = empty_session
             and get_pv_generation_by_sites = "stored_generation example_generation",
           OF example_parse_two example_generation_fetch])
qed

section \<open>Malformed identifiers\<close>

text \<open>
  Claim C9, at the input where it fails. \<^verbatim>\<open>get_forecasts_by_sites\<close> is called with a
  string that is no identifier, on a session that has executed nothing: when it fails,
  the historical statement has been executed.
\<close>

theorem forecasts_query_before_failing:
  "UUID_hex ''not-a-uuid'' = None \<and>
   executed empty_session = [] \<and>
   fst (get_forecasts_by_sites id id UUID_hex 0 empty_session [''not-a-uuid''] 0 30 False) =
     Inl StorageFailure \<and>
   executed (snd (get_forecasts_by_sites id id UUID_hex 0 empty_session [''not-a-uuid'']
                    0 30 False)) = [HorizonQuery]"
  by (simp add: UUID_hex_malformed get_forecasts_by_sites_def get_forecasts_for_horizon_def
      empty_session_def execute_def)

text \<open>
  Claim C9, amended. On a list holding a string that \<^verbatim>\<open>uuid.UUID\<close> rejects,
  \<^verbatim>\<open>_get_latest_forecast_by_sites\<close> and \<^verbatim>\<open>get_generation_by_sites\<close> raise
  \<^verbatim>\<open>ValueError\<close> and leave the session as it was: no statement is executed.
  \<^verbatim>\<open>get_forecasts_by_sites\<close> fails too, after it has executed the historical
  statement and nothing else.
\<close>

theorem malformed_identifier_failure:
  assumes "su \<in> set site_uuids" and "UUID su = None"
  shows "get_latest_forecast_by_sites UUID session site_uuids start_opt =
           (Inl ValueError, session) \<and>
         get_generation_by_sites get_pv_generation_by_sites rows_to_pydantic
           rows_to_pydantic_compact UUID session site_uuids start_utc compact =
           (Inl ValueError, session) \<and>
         (\<exists>e. fst (get_forecasts_by_sites forecast_rows_to_pydantic
                     forecast_rows_to_pydantic_compact UUID utcnow session site_uuids start_utc
                     horizon_minutes compact) = Inl e) \<and>
         executed (snd (get_forecasts_by_sites forecast_rows_to_pydantic
                     forecast_rows_to_pydantic_compact UUID utcnow session site_uuids start_utc
                     horizon_minutes compact)) = executed session @ [HorizonQuery]"
proof -
  have none: "those (map UUID site_uuids) = None"
    using assms by (rule those_map_None)
  have latest: "get_latest_forecast_by_sites UUID s site_uuids opt = (Inl ValueError, s)"
    for s opt
    by (simp add: get_latest_forecast_by_sites_def none)
  have gen: "get_generation_by_sites get_pv_generation_by_sites rows_to_pydantic
           rows_to_pydantic_compact UUID session site_uuids start_utc compact =
           (Inl ValueError, session)"
    by (simp add: get_generation_by_sites_def none)
  have hor: "snd (get_forecasts_for_horizon session site_uuids start_utc utcnow horizon_minutes)
      = execute HorizonQuery session"
    by (simp add: get_forecasts_for_horizon_def split: option.splits)
  obtain r where r: "get_forecasts_for_horizon session site_uuids start_utc utcnow
      horizon_minutes = (r, execute HorizonQuery session)"
    using hor by (metis prod.collapse)
  have all: "(\<exists>e. fst (get_forecasts_by_sites forecast_rows_to_pydantic
                     forecast_rows_to_pydantic_compact UUID utcnow session site_uuids start_utc
                     horizon_minutes compact) = Inl e) \<and>
         executed (snd (get_forecasts_by_sites forecast_rows_to_pydantic
                     forecast_rows_to_pydantic_compact UUID utcnow session site_uuids start_utc
                     horizon_minutes compact)) = executed session @ [HorizonQuery]"
    by (cases r) (simp_all add: get_forecasts_by_sites_def r latest execute_def)
  from latest gen all show ?thesis by blast
qed

theorem malformed_identifier_failure_witness:
  "''not-a-uuid'' \<in> set [''not-a-uuid''] \<and> UUID_hex ''not-a-uuid'' = None \<and>
   get_latest_forecast_by_sites UUID_hex empty_session [''not-a-uuid''] None =
     (Inl ValueError, empty_session) \<and>
   get_generation_by_sites (stored_generation example_generation) generation_rows_to_pydantic
     generation_rows_to_pydantic_compact UUID_hex empty_session [''not-a-uuid''] 0 False =
     (Inl ValueError, empty_session) \<and>
   executed (snd (get_forecasts_by_sites id id UUID_hex 0 empty_session [''not-a-uuid'']
                    0 30 False)) = executed empty_session @ [HorizonQuery]"
proof -
  have m: "''not-a-uuid'' \<in> set [''not-a-uuid'']" by simp
  note t = malformed_identifier_failure
      [where UUID = UUID_hex and su = "''not-a-uuid''" and site_uuids = "[''not-a-uuid'']"
         and session = empty_session and start_opt = None
         and get_pv_generation_by_sites = "stored_generation example_generation"
         and rows_to_pydantic = generation_rows_to_pydantic
         and rows_to_pydantic_compact = generation_rows_to_pydantic_compact
         and start_utc = 0 and compact = False and forecast_rows_to_pydantic = id
         and forecast_rows_to_pydantic_compact = id and utcnow = 0 and horizon_minutes = 30,
       OF m UUID_hex_malformed]
  show ?thesis
    using m UUID_hex_malformed t by blast
qed

end
